theory Spec2Isabelle
  imports Complex_Main "HOL-Library.AList" "HOL-Library.Char_ord"
    "HOL-Library.List_Lexorder" "HOL-Library.Product_Lexorder"
begin

section \<open>Data frames as the dashboard sees them\<close>

text \<open>
  The dashboard (air_quality_dashboard.py) works on pandas data frames. A frame is modelled
  column by column, as pandas stores it: an association list from column names to columns.
  A column read from a CSV file is either of object dtype (Python strings, with NaN for an
  empty cell) or of a numeric dtype; \<open>pd.to_datetime\<close> produces a datetime column, whose
  entries are nanoseconds since the epoch. A missing entry (NaN, NaT) is \<open>None\<close>.
  Numbers are exact rationals: floating-point rounding is outside this model.
\<close>

datatype error =
  FileNotFoundError | ParserError | KeyError string | AttributeError
  | ValueError | TypeError | NameError

datatype column =
  ObjectCol "string option list"
  | NumCol "rat option list"
  | DatetimeCol "int option list"

type_synonym dataframe = "(string \<times> column) list"

text \<open>What the library functions depend on and the source does not fix: the reading of a
  timestamp string and of a number string, and the conversion of a number to a timestamp.\<close>

record pandas =
  parse_datetime :: "string \<Rightarrow> int option"
  datetime_of_number :: "rat \<Rightarrow> int option"
  parse_numeric :: "string \<Rightarrow> rat option"

text \<open>\<open>df[c]\<close> raises KeyError on a missing column; \<open>df[c] = x\<close> replaces the column
  or appends it.\<close>

definition getitem :: "dataframe \<Rightarrow> string \<Rightarrow> error + column" where
  "getitem df c = (case map_of df c of None \<Rightarrow> Inl (KeyError c) | Some x \<Rightarrow> Inr x)"

definition setitem :: "dataframe \<Rightarrow> string \<Rightarrow> column \<Rightarrow> dataframe" where
  "setitem df c x = AList.update c x df"

text \<open>Python's \<open>s.strip("'")\<close>: every leading and trailing quote character goes.\<close>

definition strip_chars :: "char \<Rightarrow> string \<Rightarrow> string" where
  "strip_chars q s = rev (dropWhile (\<lambda>c. c = q) (rev (dropWhile (\<lambda>c. c = q) s)))"

text \<open>\<open>series.str.strip("'")\<close>: the \<open>.str\<close> accessor exists on object columns only.\<close>

definition str_strip :: "column \<Rightarrow> error + column" where
  "str_strip col = (case col of
       ObjectCol xs \<Rightarrow> Inr (ObjectCol (map (map_option (strip_chars (CHR 0x27))) xs))
     | NumCol _ \<Rightarrow> Inl AttributeError
     | DatetimeCol _ \<Rightarrow> Inl AttributeError)"

text \<open>The loop over \<open>string_columns\<close> in the loader.\<close>

fun strip_columns :: "string list \<Rightarrow> dataframe \<Rightarrow> error + dataframe" where
  "strip_columns [] df = Inr df"
| "strip_columns (c # cs) df =
     (case getitem df c of
        Inl e \<Rightarrow> Inl e
      | Inr x \<Rightarrow> (case str_strip x of
            Inl e \<Rightarrow> Inl e
          | Inr y \<Rightarrow> strip_columns cs (setitem df c y)))"

text \<open>\<open>pd.to_datetime\<close>: one entry that cannot be read fails the whole column.\<close>

fun convert_all :: "('a \<Rightarrow> int option) \<Rightarrow> 'a option list \<Rightarrow> error + int option list" where
  "convert_all p [] = Inr []"
| "convert_all p (None # xs) =
     (case convert_all p xs of Inl e \<Rightarrow> Inl e | Inr ys \<Rightarrow> Inr (None # ys))"
| "convert_all p (Some s # xs) =
     (case p s of
        None \<Rightarrow> Inl ValueError
      | Some t \<Rightarrow> (case convert_all p xs of Inl e \<Rightarrow> Inl e | Inr ys \<Rightarrow> Inr (Some t # ys)))"

definition to_datetime :: "pandas \<Rightarrow> column \<Rightarrow> error + column" where
  "to_datetime pd col = (case col of
       ObjectCol xs \<Rightarrow>
         (case convert_all (parse_datetime pd) xs of Inl e \<Rightarrow> Inl e | Inr ts \<Rightarrow> Inr (DatetimeCol ts))
     | NumCol xs \<Rightarrow>
         (case convert_all (datetime_of_number pd) xs of Inl e \<Rightarrow> Inl e | Inr ts \<Rightarrow> Inr (DatetimeCol ts))
     | DatetimeCol ts \<Rightarrow> Inr (DatetimeCol ts))"

text \<open>\<open>pd.to_numeric(series, errors='coerce')\<close>: an entry that cannot be read becomes NaN.\<close>

definition coerce :: "(string \<Rightarrow> rat option) \<Rightarrow> string option \<Rightarrow> rat option" where
  "coerce p c = (case c of None \<Rightarrow> None | Some s \<Rightarrow> p s)"

definition to_numeric :: "pandas \<Rightarrow> column \<Rightarrow> column" where
  "to_numeric pd col = (case col of
       ObjectCol xs \<Rightarrow> NumCol (map (coerce (parse_numeric pd)) xs)
     | NumCol xs \<Rightarrow> NumCol xs
     | DatetimeCol ts \<Rightarrow> NumCol (map (map_option of_int) ts))"

text \<open>\<open>series.isin(values)\<close> for a list of strings, and selection by a boolean mask.\<close>

definition isin :: "column \<Rightarrow> string list \<Rightarrow> bool list" where
  "isin col vals = (case col of
       ObjectCol xs \<Rightarrow> map (\<lambda>c. case c of None \<Rightarrow> False | Some s \<Rightarrow> s \<in> set vals) xs
     | NumCol xs \<Rightarrow> map (\<lambda>_. False) xs
     | DatetimeCol ts \<Rightarrow> map (\<lambda>_. False) ts)"

definition select :: "bool list \<Rightarrow> 'a list \<Rightarrow> 'a list" where
  "select keep xs = map snd (filter fst (zip keep xs))"

definition mask_col :: "bool list \<Rightarrow> column \<Rightarrow> column" where
  "mask_col keep col = (case col of
       ObjectCol xs \<Rightarrow> ObjectCol (select keep xs)
     | NumCol xs \<Rightarrow> NumCol (select keep xs)
     | DatetimeCol ts \<Rightarrow> DatetimeCol (select keep ts))"

definition getitem_mask :: "dataframe \<Rightarrow> bool list \<Rightarrow> dataframe" where
  "getitem_mask df keep = map (\<lambda>(n, col). (n, mask_col keep col)) df"

section \<open>The sensor data set\<close>

text \<open>One row of the data set the dashboard keeps in \<open>sensor_data\<close>: the result of the
  loader's \<open>groupby(...).mean().reset_index()\<close>, or of the sample generator.\<close>

record reading =
  timestamp :: int
  location :: string
  sensor_id :: string
  air_quality_index :: "rat option"

type_synonym group_key = "int \<times> string \<times> string"

text \<open>\<open>Series.mean()\<close> skips NaN; the mean of no value is NaN.\<close>

definition present :: "'a option list \<Rightarrow> 'a list" where
  "present vs = concat (map (\<lambda>v. case v of None \<Rightarrow> [] | Some x \<Rightarrow> [x]) vs)"

definition mean_skipna :: "rat option list \<Rightarrow> rat option" where
  "mean_skipna vs =
     (let xs = present vs in if xs = [] then None else Some (sum_list xs / of_nat (length xs)))"

text \<open>The rows a \<open>groupby\<close> keeps: those whose key has no missing part.\<close>

fun keyed :: "int option \<times> string option \<times> string option \<times> rat option
    \<Rightarrow> (group_key \<times> rat option) list" where
  "keyed (Some t, Some l, Some s, v) = [((t, l, s), v)]"
| "keyed _ = []"

definition group_rows :: "int option list \<Rightarrow> string option list \<Rightarrow> string option list
    \<Rightarrow> rat option list \<Rightarrow> (group_key \<times> rat option) list" where
  "group_rows ts ls ss vs = concat (map keyed (zip ts (zip ls (zip ss vs))))"

definition members :: "(group_key \<times> rat option) list \<Rightarrow> group_key \<Rightarrow> rat option list" where
  "members kvs k = map snd (filter (\<lambda>kv. fst kv = k) kvs)"

definition aggregate :: "(group_key \<times> rat option) list \<Rightarrow> reading list" where
  "aggregate kvs =
     map (\<lambda>k. \<lparr>timestamp = fst k, location = fst (snd k), sensor_id = snd (snd k),
               air_quality_index = mean_skipna (members kvs k)\<rparr>)
         (sort (remdups (map fst kvs)))"


text \<open>\<open>df.groupby(['timestamp', 'location', 'sensor_id'])['air_quality_index'].mean()
  .reset_index()\<close> on the cleaned frame.\<close>

definition groupby_mean :: "dataframe \<Rightarrow> error + reading list" where
  "groupby_mean df =
     (case getitem df ''timestamp'' of Inl e \<Rightarrow> Inl e | Inr tc \<Rightarrow>
      case getitem df ''location'' of Inl e \<Rightarrow> Inl e | Inr lc \<Rightarrow>
      case getitem df ''sensor_id'' of Inl e \<Rightarrow> Inl e | Inr sc \<Rightarrow>
      case getitem df ''air_quality_index'' of Inl e \<Rightarrow> Inl e | Inr vc \<Rightarrow>
      (case (tc, lc, sc, vc) of
         (DatetimeCol ts, ObjectCol ls, ObjectCol ss, NumCol vs) \<Rightarrow>
           Inr (aggregate (group_rows ts ls ss vs))
       | _ \<Rightarrow> Inl TypeError))"

text \<open>The body of the \<open>try\<close> block of \<open>load_and_process_sensor_data\<close>, from the frame
  that \<open>pd.read_csv\<close> returned.\<close>

definition string_columns :: "string list" where
  "string_columns = [''sensor_id'', ''sensor_type'', ''location'', ''value_type'']"

definition value_types :: "string list" where
  "value_types = [''P0'', ''P1'', ''P2'']"

definition clean :: "pandas \<Rightarrow> dataframe \<Rightarrow> error + dataframe" where
  "clean pd df0 =
     (case strip_columns string_columns df0 of Inl e \<Rightarrow> Inl e | Inr df1 \<Rightarrow>
      case getitem df1 ''timestamp'' of Inl e \<Rightarrow> Inl e | Inr tc \<Rightarrow>
      case to_datetime pd tc of Inl e \<Rightarrow> Inl e | Inr tc' \<Rightarrow>
      let df2 = setitem df1 ''timestamp'' tc' in
      case getitem df2 ''air_quality_index'' of Inl e \<Rightarrow> Inl e | Inr vc \<Rightarrow>
      case str_strip vc of Inl e \<Rightarrow> Inl e | Inr vc' \<Rightarrow>
      Inr (setitem df2 ''air_quality_index'' (to_numeric pd vc')))"

definition restrict_value_type :: "dataframe \<Rightarrow> error + dataframe" where
  "restrict_value_type df =
     (case getitem df ''value_type'' of Inl e \<Rightarrow> Inl e
      | Inr c \<Rightarrow> Inr (getitem_mask df (isin c value_types)))"

definition process_sensor_data :: "pandas \<Rightarrow> error + dataframe \<Rightarrow> error + reading list" where
  "process_sensor_data pd csv =
     (case csv of Inl e \<Rightarrow> Inl e | Inr df0 \<Rightarrow>
      case clean pd df0 of Inl e \<Rightarrow> Inl e | Inr df3 \<Rightarrow>
      case restrict_value_type df3 of Inl e \<Rightarrow> Inl e | Inr df4 \<Rightarrow>
      groupby_mean df4)"

section \<open>The sample data generator\<close>

text \<open>\<open>np.random.randint\<close> reads and advances the generator's hidden state. The model
  takes the draws as they come: \<open>rnd k lo hi\<close> is what the \<open>k\<close>-th call of an invocation
  returns when it is \<open>randint(lo, hi)\<close>. The library's contract is that the value lies
  in \<open>[lo, hi)\<close>.\<close>

type_synonym randint = "nat \<Rightarrow> int \<Rightarrow> int \<Rightarrow> int"

definition in_range :: "randint \<Rightarrow> bool" where
  "in_range rnd = (\<forall>k lo hi. lo < hi \<longrightarrow> lo \<le> rnd k lo hi \<and> rnd k lo hi < hi)"

definition day_ns :: int where
  "day_ns = 86400000000000"

text \<open>\<open>pd.date_range(end=e, periods=n, freq='D')\<close>.\<close>

definition date_range_end :: "int \<Rightarrow> nat \<Rightarrow> int list" where
  "date_range_end e n = map (\<lambda>i. e - (int n - 1 - int i) * day_ns) [0..<n]"

text \<open>Python's \<open>str\<close> of an integer, as the f-strings use it.\<close>

definition digit :: "nat \<Rightarrow> char" where
  "digit d = ''0123456789'' ! d"

fun str_nat :: "nat \<Rightarrow> string" where
  "str_nat n = (if n < 10 then [digit n] else str_nat (n div 10) @ [digit (n mod 10)])"

declare str_nat.simps [simp del]

definition str_int :: "int \<Rightarrow> string" where
  "str_int i = (if i < 0 then CHR ''-'' # str_nat (nat (- i)) else str_nat (nat i))"

text \<open>The two nested loops of \<open>create_sample_data\<close>. The source appends to four lists in
  step and builds the frame from them; the model appends the row. \<open>k\<close> counts the draws.\<close>

definition sample_row :: "randint \<Rightarrow> string \<Rightarrow> int \<Rightarrow> nat \<Rightarrow> reading" where
  "sample_row rnd loc d k =
     \<lparr>timestamp = d, location = loc,
      sensor_id = ''SENSOR_'' @ str_int (rnd (k + 1) 1 5),
      air_quality_index = Some (of_int (rnd k 0 200))\<rparr>"

fun sample_dates :: "randint \<Rightarrow> string \<Rightarrow> int list \<Rightarrow> nat \<Rightarrow> reading list
    \<Rightarrow> reading list \<times> nat" where
  "sample_dates rnd loc [] k acc = (acc, k)"
| "sample_dates rnd loc (d # ds) k acc =
     sample_dates rnd loc ds (k + 2) (acc @ [sample_row rnd loc d k])"

fun sample_locations :: "randint \<Rightarrow> string list \<Rightarrow> int list \<Rightarrow> nat \<Rightarrow> reading list
    \<Rightarrow> reading list \<times> nat" where
  "sample_locations rnd [] ds k acc = (acc, k)"
| "sample_locations rnd (loc # locs) ds k acc =
     (case sample_dates rnd loc ds k acc of (acc', k') \<Rightarrow> sample_locations rnd locs ds k' acc')"

definition sample_places :: "string list" where
  "sample_places = [''Location A'', ''Location B'', ''Location C'']"

definition create_sample_data :: "int \<Rightarrow> randint \<Rightarrow> reading list" where
  "create_sample_data now rnd =
     fst (sample_locations rnd sample_places (date_range_end now 30) 0 [])"

section \<open>The sensor data loader\<close>

text \<open>\<open>try: ... except Exception as e: ...\<close>\<close>

definition try_except :: "error + 'a \<Rightarrow> (error \<Rightarrow> error + 'a) \<Rightarrow> error + 'a" where
  "try_except body handler = (case body of Inl e \<Rightarrow> handler e | Inr x \<Rightarrow> Inr x)"

text \<open>\<open>read_csv\<close> is the file system as \<open>pd.read_csv\<close> sees it: the frame of a path, or
  the exception. \<open>now\<close> and \<open>rnd\<close> are the clock and the draws the generator would use.\<close>

definition load_and_process_sensor_data ::
    "pandas \<Rightarrow> (string \<Rightarrow> error + dataframe) \<Rightarrow> int \<Rightarrow> randint \<Rightarrow> string \<Rightarrow> error + reading list" where
  "load_and_process_sensor_data pd read_csv now rnd file_path =
     try_except (process_sensor_data pd (read_csv file_path))
       (\<lambda>e. Inr (create_sample_data now rnd))"

section \<open>The monitoring callback\<close>

text \<open>\<open>update_figures\<close> works on frame objects: \<open>sensor_data.copy()\<close> and every selection
  \<open>df[mask]\<close> make a new object, \<open>df['date'] = ...\<close> changes the object it is applied to.
  The objects live in a heap, a list indexed by address; \<open>sensor_data\<close> is an address.
  A frame of the sensor data set is its rows and, once assigned, its \<open>date\<close> column.\<close>

record frame =
  rows :: "reading list"
  date_col :: "int list option"

type_synonym heap = "frame list"

definition alloc :: "heap \<Rightarrow> frame \<Rightarrow> nat \<times> heap" where
  "alloc h f = (length h, h @ [f])"

definition frame_select :: "bool list \<Rightarrow> frame \<Rightarrow> frame" where
  "frame_select keep f =
     \<lparr>rows = select keep (rows f), date_col = map_option (select keep) (date_col f)\<rparr>"

text \<open>\<open>if selected_locations:\<close> and \<open>if start_date and end_date:\<close> test Python truth: None, the
  empty list and the empty string are false.\<close>

definition truthy :: "'a list option \<Rightarrow> bool" where
  "truthy v = (case v of None \<Rightarrow> False | Some xs \<Rightarrow> xs \<noteq> [])"

text \<open>\<open>filtered_df[filtered_df['location'].isin(selected_locations)]\<close>, when the selection is
  true.\<close>

definition filter_locations :: "heap \<Rightarrow> nat \<Rightarrow> string list option \<Rightarrow> nat \<times> heap" where
  "filter_locations h a selected_locations =
     (case selected_locations of
        None \<Rightarrow> (a, h)
      | Some locs \<Rightarrow>
          if locs = [] then (a, h)
          else alloc h (frame_select (map (\<lambda>r. location r \<in> set locs) (rows (h ! a))) (h ! a)))"

text \<open>A comparison of the timestamp column with a string: pandas reads the string as a
  timestamp, and raises TypeError when it cannot.\<close>

definition compare_column :: "pandas \<Rightarrow> (int \<Rightarrow> int \<Rightarrow> bool) \<Rightarrow> reading list \<Rightarrow> string
    \<Rightarrow> error + bool list" where
  "compare_column pd rel rs s =
     (case parse_datetime pd s of
        None \<Rightarrow> Inl TypeError
      | Some b \<Rightarrow> Inr (map (\<lambda>r. rel (timestamp r) b) rs))"

definition filter_dates :: "pandas \<Rightarrow> heap \<Rightarrow> nat \<Rightarrow> string option \<Rightarrow> string option
    \<Rightarrow> (error + nat) \<times> heap" where
  "filter_dates pd h a start_date end_date =
     (case (start_date, end_date) of
        (Some s, Some e) \<Rightarrow>
          if s = [] \<or> e = [] then (Inr a, h)
          else (case compare_column pd (\<lambda>t b. b \<le> t) (rows (h ! a)) s of
                  Inl err \<Rightarrow> (Inl err, h)
                | Inr lower \<Rightarrow>
                    (case compare_column pd (\<lambda>t b. t \<le> b) (rows (h ! a)) e of
                       Inl err \<Rightarrow> (Inl err, h)
                     | Inr upper \<Rightarrow>
                         (case alloc h (frame_select (map2 (\<and>) lower upper) (h ! a)) of
                            (a', h') \<Rightarrow> (Inr a', h'))))
      | _ \<Rightarrow> (Inr a, h))"

text \<open>The first lines of \<open>update_figures\<close>, up to the filtered frame: the copy of
  \<open>sensor_data\<close>, the selection by location, the selection by date.\<close>

definition filter_step :: "pandas \<Rightarrow> nat \<Rightarrow> heap \<Rightarrow> string list option \<Rightarrow> string option
    \<Rightarrow> string option \<Rightarrow> (error + nat) \<times> heap" where
  "filter_step pd sensor_data h selected_locations start_date end_date =
     (if length h \<le> sensor_data then (Inl NameError, h)
      else
        case alloc h (h ! sensor_data) of (a0, h0) \<Rightarrow>
        case filter_locations h0 a0 selected_locations of (a1, h1) \<Rightarrow>
        filter_dates pd h1 a1 start_date end_date)"

text \<open>\<open>filtered_df['date'] = filtered_df['timestamp'].dt.date\<close>: the day of a timestamp,
  counted from the epoch.\<close>

definition date_of :: "int \<Rightarrow> int" where
  "date_of t = t div day_ns"

definition assign_date :: "heap \<Rightarrow> nat \<Rightarrow> heap" where
  "assign_date h a = h[a := (h ! a)\<lparr>date_col := Some (map (\<lambda>r. date_of (timestamp r)) (rows (h ! a)))\<rparr>]"

text \<open>\<open>filtered_df.groupby(['location', 'date'])['air_quality_index'].mean().reset_index()\<close>\<close>

record daily_average =
  place :: string
  day :: int
  average :: "rat option"

definition daily_means :: "frame \<Rightarrow> error + daily_average list" where
  "daily_means f =
     (case date_col f of
        None \<Rightarrow> Inl (KeyError ''date'')
      | Some ds \<Rightarrow>
          let kvs = map (\<lambda>(r, d). ((location r, d), air_quality_index r)) (zip (rows f) ds)
          in Inr (map (\<lambda>k. \<lparr>place = fst k, day = snd k,
                          average = mean_skipna (map snd (filter (\<lambda>kv. fst kv = k) kvs))\<rparr>)
                    (sort (remdups (map fst kvs)))))"

text \<open>\<open>Series.max()\<close> and \<open>Series.min()\<close> skip NaN and are NaN on no value.\<close>

definition max_skipna :: "rat option list \<Rightarrow> rat option" where
  "max_skipna vs = (case present vs of [] \<Rightarrow> None | x # xs \<Rightarrow> Some (fold max xs x))"

definition min_skipna :: "rat option list \<Rightarrow> rat option" where
  "min_skipna vs = (case present vs of [] \<Rightarrow> None | x # xs \<Rightarrow> Some (fold min xs x))"

text \<open>The format \<open>:.2f\<close>: the decimal with two places nearest to the value, a tie going to
  the even neighbour; NaN prints as \<open>nan\<close>.\<close>

definition round_half_even :: "rat \<Rightarrow> int" where
  "round_half_even q =
     (let f = \<lfloor>q\<rfloor>; r = q - of_int f
      in if r < 1 / 2 then f else if 1 / 2 < r then f + 1 else if even f then f else f + 1)"

definition two_digits :: "nat \<Rightarrow> string" where
  "two_digits n = [digit (n div 10), digit (n mod 10)]"

definition format_2f :: "rat option \<Rightarrow> string" where
  "format_2f v =
     (case v of
        None \<Rightarrow> ''nan''
      | Some q \<Rightarrow>
          let n = nat (round_half_even (\<bar>q\<bar> * 100))
          in (if q < 0 then ''-'' else []) @ str_nat (n div 100) @ ''.'' @ two_digits (n mod 100))"

text \<open>One \<open>html.Div\<close> of the statistics section: the heading and the four paragraphs.\<close>

record statistics =
  heading :: string
  average_line :: string
  maximum_line :: string
  minimum_line :: string
  count_line :: string

definition location_statistics :: "reading list \<Rightarrow> string \<Rightarrow> statistics" where
  "location_statistics filtered loc =
     (let loc_data = filter (\<lambda>r. location r = loc) filtered;
          values = map air_quality_index loc_data
      in \<lparr>heading = ''Statistics for Location '' @ loc,
          average_line = ''Average AQI: '' @ format_2f (mean_skipna values),
          maximum_line = ''Maximum AQI: '' @ format_2f (max_skipna values),
          minimum_line = ''Minimum AQI: '' @ format_2f (min_skipna values),
          count_line = ''Number of readings: '' @ str_nat (length loc_data)\<rparr>)"

text \<open>\<open>for loc in selected_locations\<close> raises TypeError on None.\<close>

definition statistics_section :: "reading list \<Rightarrow> string list option \<Rightarrow> error + statistics list" where
  "statistics_section filtered selected_locations =
     (case selected_locations of
        None \<Rightarrow> Inl TypeError
      | Some locs \<Rightarrow> Inr (map (location_statistics filtered) locs))"

text \<open>The figures are plotly's; the model keeps the data they are given.\<close>

record outputs =
  air_quality_fig :: "reading list"
  trends_fig :: "daily_average list"
  stats :: "statistics list"

text \<open>\<open>update_figures\<close>, with the heap before and after. \<open>sensor_data\<close> is the address the
  global is bound to. Nothing in it catches an exception.\<close>

definition update_figures :: "pandas \<Rightarrow> nat \<Rightarrow> heap \<Rightarrow> string list option \<Rightarrow> string option
    \<Rightarrow> string option \<Rightarrow> (error + outputs) \<times> heap" where
  "update_figures pd sensor_data h selected_locations start_date end_date =
     (case filter_step pd sensor_data h selected_locations start_date end_date of
        (Inl err, h2) \<Rightarrow> (Inl err, h2)
      | (Inr a2, h2) \<Rightarrow>
          let line = rows (h2 ! a2);
              h3 = assign_date h2 a2
          in case daily_means (h3 ! a2) of
               Inl err \<Rightarrow> (Inl err, h3)
             | Inr daily_avg \<Rightarrow>
                 (case statistics_section (rows (h3 ! a2)) selected_locations of
                    Inl err \<Rightarrow> (Inl err, h3)
                  | Inr sts \<Rightarrow>
                      (Inr \<lparr>air_quality_fig = line, trends_fig = daily_avg, stats = sts\<rparr>, h3)))"

text \<open>The words of the filter contract: a row is selected when no location is chosen or its
  location is among the chosen ones; the date bounds apply when both are given, and each
  must then read as a timestamp.\<close>

definition selected :: "string list option \<Rightarrow> reading \<Rightarrow> bool" where
  "selected sel r = (case sel of None \<Rightarrow> True | Some locs \<Rightarrow> locs = [] \<or> location r \<in> set locs)"

definition date_bounds :: "pandas \<Rightarrow> string option \<Rightarrow> string option \<Rightarrow> error + (int \<times> int) option" where
  "date_bounds pd start_date end_date =
     (case (start_date, end_date) of
        (Some s, Some e) \<Rightarrow>
          if s = [] \<or> e = [] then Inr None
          else (case parse_datetime pd s of
                  None \<Rightarrow> Inl TypeError
                | Some lo \<Rightarrow>
                    (case parse_datetime pd e of
                       None \<Rightarrow> Inl TypeError
                     | Some hi \<Rightarrow> Inr (Some (lo, hi))))
      | _ \<Rightarrow> Inr None)"

definition in_bounds :: "(int \<times> int) option \<Rightarrow> reading \<Rightarrow> bool" where
  "in_bounds b r = (case b of None \<Rightarrow> True | Some (lo, hi) \<Rightarrow> lo \<le> timestamp r \<and> timestamp r \<le> hi)"

section \<open>The research data\<close>

text \<open>A value of a cell that is not missing.\<close>

datatype cell = Str string | Num rat | Time int

definition cells :: "column \<Rightarrow> cell option list" where
  "cells col = (case col of
       ObjectCol xs \<Rightarrow> map (map_option Str) xs
     | NumCol xs \<Rightarrow> map (map_option Num) xs
     | DatetimeCol ts \<Rightarrow> map (map_option Time) ts)"

definition notna :: "column \<Rightarrow> bool list" where
  "notna col = map (\<lambda>c. c \<noteq> None) (cells col)"

text \<open>\<open>series == s\<close> for a string \<open>s\<close>.\<close>

definition eq_str :: "column \<Rightarrow> string \<Rightarrow> bool list" where
  "eq_str col s = map (\<lambda>c. c = Some (Str s)) (cells col)"

text \<open>\<open>len(df)\<close>\<close>

definition nrows :: "dataframe \<Rightarrow> nat" where
  "nrows df = (case df of [] \<Rightarrow> 0 | (n, col) # _ \<Rightarrow> length (cells col))"

text \<open>\<open>df.groupby(key)[counted].count().reset_index()\<close>: one row for each value of the key
  column, in order, with the number of entries of the counted column that are not missing.
  Rows whose key is missing belong to no group.\<close>

definition count_groups :: "('a :: linorder) option list \<Rightarrow> bool list \<Rightarrow> ('a \<times> nat) list" where
  "count_groups ks flags =
     map (\<lambda>k. (k, length (filter (\<lambda>(k', b). k' = Some k \<and> b) (zip ks flags))))
       (sort (remdups (present ks)))"

definition groupby_count :: "dataframe \<Rightarrow> string \<Rightarrow> string \<Rightarrow> error + (cell \<times> nat) list" where
  "groupby_count df key counted =
     (case getitem df key of Inl e \<Rightarrow> Inl e | Inr kc \<Rightarrow>
      case getitem df counted of Inl e \<Rightarrow> Inl e | Inr cc \<Rightarrow>
      Inr (case kc of
             ObjectCol ks \<Rightarrow> map (\<lambda>(k, n). (Str k, n)) (count_groups ks (notna cc))
           | NumCol ks \<Rightarrow> map (\<lambda>(k, n). (Num k, n)) (count_groups ks (notna cc))
           | DatetimeCol ks \<Rightarrow> map (\<lambda>(k, n). (Time k, n)) (count_groups ks (notna cc))))"

text \<open>\<open>load_research_findings\<close>: no \<open>try\<close> in it.\<close>

definition load_research_findings :: "pandas \<Rightarrow> (string \<Rightarrow> error + dataframe) \<Rightarrow> string \<Rightarrow> string
    \<Rightarrow> error + dataframe \<times> dataframe \<times> (cell \<times> nat) list" where
  "load_research_findings pd read_csv findings_file correlations_file =
     (case read_csv findings_file of Inl e \<Rightarrow> Inl e | Inr findings_df \<Rightarrow>
      case read_csv correlations_file of Inl e \<Rightarrow> Inl e | Inr correlations_df \<Rightarrow>
      case groupby_count findings_df ''category'' ''detail'' of Inl e \<Rightarrow> Inl e
      | Inr findings_by_category \<Rightarrow>
      case getitem correlations_df ''value'' of Inl e \<Rightarrow> Inl e | Inr v \<Rightarrow>
      Inr (findings_df, setitem correlations_df ''value'' (to_numeric pd v), findings_by_category))"

text \<open>A plotly express figure is kept as the data it is given: the \<open>x\<close> and \<open>y\<close> columns
  and, for a scatter plot, the sizes. \<open>px.bar()\<close> without data is the empty figure. A column
  that the frame does not have, or a size list of the wrong length, is a ValueError.\<close>

datatype chart =
  BarChart "cell option list" "cell option list"
  | ScatterChart "cell option list" "cell option list" "nat list"
  | EmptyFigure

fun chart_y :: "chart \<Rightarrow> cell option list" where
  "chart_y (BarChart xs ys) = ys"
| "chart_y (ScatterChart xs ys sz) = ys"
| "chart_y EmptyFigure = []"

definition px_bar :: "dataframe \<Rightarrow> string \<Rightarrow> string \<Rightarrow> error + chart" where
  "px_bar df x y =
     (case (map_of df x, map_of df y) of
        (Some xc, Some yc) \<Rightarrow> Inr (BarChart (cells xc) (cells yc))
      | _ \<Rightarrow> Inl ValueError)"

definition px_scatter :: "dataframe \<Rightarrow> string \<Rightarrow> string \<Rightarrow> nat list \<Rightarrow> error + chart" where
  "px_scatter df x y sz =
     (case (map_of df x, map_of df y) of
        (Some xc, Some yc) \<Rightarrow>
          if length sz = length (cells xc) then Inr (ScatterChart (cells xc) (cells yc) sz)
          else Inl ValueError
      | _ \<Rightarrow> Inl ValueError)"

text \<open>What a callback hands to the page: a \<open>Div\<close> with a text, or the health page with its
  two figures and its cards.\<close>

datatype component =
  TextDiv string
  | HealthPage chart chart "(string \<times> string list) list"

definition create_finding_card :: "string \<Rightarrow> string list \<Rightarrow> string \<times> string list" where
  "create_finding_card title points = (title, points)"

definition finding_cards :: "(string \<times> string list) list" where
  "finding_cards =
     [create_finding_card ''Pollution Sources''
        [''Traffic-related emissions'', ''Indoor air pollution (vapors, dusts, smoke)'',
         ''Waste management practices''],
      create_finding_card ''Vulnerable Groups''
        [''Children with developing lungs'', ''Preterm/low birth weight infants'',
         ''Residents with limited healthcare access''],
      create_finding_card ''Study Limitations''
        [''Cross-sectional design'', ''Limited longitudinal data'',
         ''Indirect waste pollution inference'']]"

text \<open>\<open>create_health_correlations_page\<close> reads the global \<open>correlations_df\<close>, which the
  module binds only when it is run as the main program: \<open>None\<close> is the unbound name, and
  reading it raises NameError.\<close>

definition health_page_body :: "dataframe option \<Rightarrow> error + component" where
  "health_page_body correlations_df =
     (case correlations_df of None \<Rightarrow> Inl NameError | Some df \<Rightarrow>
      case getitem df ''parameter'' of Inl e \<Rightarrow> Inl e | Inr p \<Rightarrow>
      let pm25_data = getitem_mask df (eq_str p ''PM2.5 Levels'') in
      case getitem df ''value'' of Inl e \<Rightarrow> Inl e | Inr v \<Rightarrow>
      let health_data = getitem_mask df (map2 (\<and>) (eq_str p ''Health Implications'') (notna v)) in
      case px_bar pm25_data ''detail'' ''value'' of Inl e \<Rightarrow> Inl e | Inr pm25_fig \<Rightarrow>
      case px_scatter health_data ''detail'' ''value'' (replicate (nrows health_data) 20) of
        Inl e \<Rightarrow> Inl e
      | Inr health_fig \<Rightarrow> Inr (HealthPage pm25_fig health_fig finding_cards))"

definition create_health_correlations_page :: "dataframe option \<Rightarrow> error + component" where
  "create_health_correlations_page correlations_df =
     try_except (health_page_body correlations_df)
       (\<lambda>e. Inr (TextDiv ''Error loading health correlations page''))"

text \<open>\<open>update_research_findings\<close>: the local \<open>correlations_df\<close> is read again from the file;
  the key findings come from \<open>create_health_correlations_page\<close>, which sees the global.\<close>

definition research_body :: "pandas \<Rightarrow> (string \<Rightarrow> error + dataframe) \<Rightarrow> dataframe option
    \<Rightarrow> error + chart \<times> chart \<times> component" where
  "research_body pd read_csv global_df =
     (case read_csv ''health_correlations.csv'' of Inl e \<Rightarrow> Inl e | Inr df0 \<Rightarrow>
      case getitem df0 ''value'' of Inl e \<Rightarrow> Inl e | Inr v0 \<Rightarrow>
      let v = to_numeric pd v0;
          correlations_df = setitem df0 ''value'' v;
          valid_data = getitem_mask correlations_df (notna v) in
      case px_bar valid_data ''parameter'' ''value'' of Inl e \<Rightarrow> Inl e | Inr health_metrics \<Rightarrow>
      case getitem correlations_df ''parameter'' of Inl e \<Rightarrow> Inl e | Inr p \<Rightarrow>
      let trends_data = getitem_mask correlations_df
            (isin p [''PM2.5 Levels'', ''Health Implications'']) in
      case getitem trends_data ''value'' of Inl e \<Rightarrow> Inl e | Inr tv \<Rightarrow>
      let shown = getitem_mask trends_data (notna tv) in
      case px_scatter shown ''parameter'' ''value'' (replicate (nrows shown) 20) of
        Inl e \<Rightarrow> Inl e
      | Inr trends_viz \<Rightarrow>
      case create_health_correlations_page global_df of Inl e \<Rightarrow> Inl e
      | Inr key_findings \<Rightarrow> Inr (health_metrics, trends_viz, key_findings))"

definition update_research_findings :: "pandas \<Rightarrow> (string \<Rightarrow> error + dataframe) \<Rightarrow> dataframe option
    \<Rightarrow> string option \<Rightarrow> error + chart \<times> chart \<times> component" where
  "update_research_findings pd read_csv global_df tab =
     try_except (research_body pd read_csv global_df)
       (\<lambda>e. Inr (EmptyFigure, EmptyFigure, TextDiv ''Error loading research findings''))"

section \<open>Example inputs\<close>

text \<open>A reader of timestamps and numbers that knows one day and two numbers, a sensor file
  of three rows (the second index quoted, the third not a number and not a particulate
  measurement), and a generator that counts through the range it is asked for.\<close>

definition demo_pandas :: pandas where
  "demo_pandas =
     \<lparr>parse_datetime = (\<lambda>s. if s = ''2024-01-01'' then Some 0
                           else if s = ''2024-01-02'' then Some day_ns else None),
      datetime_of_number = (\<lambda>q. None),
      parse_numeric = (\<lambda>s. if s = ''10'' then Some 10 else if s = ''30'' then Some 30 else None)\<rparr>"

definition demo_sensor_csv :: dataframe where
  "demo_sensor_csv =
     [(''sensor_id'', ObjectCol [Some ''s1'', Some ''s1'', Some ''s1'']),
      (''sensor_type'', ObjectCol [Some ''a'', Some ''a'', None]),
      (''location'', ObjectCol [Some ''A'', Some ''A'', Some ''A'']),
      (''value_type'', ObjectCol [Some ''P1'', Some ''P2'', Some ''temperature'']),
      (''air_quality_index'',
         ObjectCol [Some ''10'', Some [CHR 0x27, CHR ''3'', CHR ''0'', CHR 0x27], Some ''x'']),
      (''timestamp'', ObjectCol [Some ''2024-01-01'', Some ''2024-01-01'', Some ''2024-01-01''])]"

definition counting :: randint where
  "counting = (\<lambda>k lo hi. lo + int k mod (hi - lo))"


text \<open>A loaded data set of three rows, two locations and two days, as the only object of a
  heap.\<close>

definition demo_rows :: "reading list" where
  "demo_rows =
     [\<lparr>timestamp = 0, location = ''A'', sensor_id = ''s1'', air_quality_index = Some 10\<rparr>,
      \<lparr>timestamp = 0, location = ''B'', sensor_id = ''s1'', air_quality_index = Some 30\<rparr>,
      \<lparr>timestamp = day_ns, location = ''A'', sensor_id = ''s2'', air_quality_index = Some (151 / 8)\<rparr>]"

definition demo_heap :: heap where
  "demo_heap = [\<lparr>rows = demo_rows, date_col = None\<rparr>]"

text \<open>The two research files: two findings of one category, the second without a detail;
  four correlations, two of them with a value that is not a number. \<open>demo_correlations\<close>
  is the correlations frame after the coercion of \<open>value\<close>. In \<open>demo_files_later\<close> the
  correlations file has changed since the start of the process.\<close>

definition demo_findings :: dataframe where
  "demo_findings =
     [(''category'', ObjectCol [Some ''Sources'', Some ''Sources'']),
      (''detail'', ObjectCol [Some ''Traffic'', None])]"

definition demo_correlations_csv :: dataframe where
  "demo_correlations_csv =
     [(''parameter'', ObjectCol [Some ''PM2.5 Levels'', Some ''PM2.5 Levels'',
         Some ''Health Implications'', Some ''Health Implications'']),
      (''detail'', ObjectCol [Some ''annual mean'', Some ''daily mean'', Some ''asthma'', Some ''cough'']),
      (''value'', ObjectCol [Some ''10'', Some ''high'', Some ''30'', Some ''n/a''])]"

definition demo_correlations :: dataframe where
  "demo_correlations =
     [(''parameter'', ObjectCol [Some ''PM2.5 Levels'', Some ''PM2.5 Levels'',
         Some ''Health Implications'', Some ''Health Implications'']),
      (''detail'', ObjectCol [Some ''annual mean'', Some ''daily mean'', Some ''asthma'', Some ''cough'']),
      (''value'', NumCol [Some 10, None, Some 30, None])]"

definition demo_files :: "string \<Rightarrow> error + dataframe" where
  "demo_files p =
     (if p = ''research_findings.csv'' then Inr demo_findings
      else if p = ''health_correlations.csv'' then Inr demo_correlations_csv
      else Inl FileNotFoundError)"

definition demo_files_later :: "string \<Rightarrow> error + dataframe" where
  "demo_files_later p =
     (if p = ''health_correlations.csv''
      then Inr [(''parameter'', ObjectCol [Some ''PM2.5 Levels'']),
                (''detail'', ObjectCol [Some ''annual mean'']),
                (''value'', ObjectCol [Some ''30''])]
      else Inl FileNotFoundError)"

section \<open>The sample data generator: proofs\<close>

lemma sample_dates_eq:
  "sample_dates rnd loc ds k acc =
     (acc @ map (\<lambda>i. sample_row rnd loc (ds ! i) (k + 2 * i)) [0..<length ds], k + 2 * length ds)"
proof (induction ds arbitrary: k acc)
  case Nil
  then show ?case by simp
next
  case (Cons d ds)
  have "map (\<lambda>i. sample_row rnd loc ((d # ds) ! i) (k + 2 * i)) [0..<length (d # ds)] =
        sample_row rnd loc d k # map (\<lambda>i. sample_row rnd loc (ds ! i) (k + 2 + 2 * i)) [0..<length ds]"
    by (simp add: upt_conv_Cons map_Suc_upt [symmetric] del: upt_Suc)
  with Cons show ?case by simp
qed

lemma upt_split_shift:
  "map f [0..<m + n] = map f [0..<m] @ map (\<lambda>i. f (m + i)) [0..<n]"
proof -
  have "[0..<m + n] = [0..<m] @ [m..<m + n]"
    by (rule upt_add_eq_append) simp
  also have "[m..<m + n] = map (\<lambda>i. i + m) [0..<n]"
    by (simp only: map_add_upt add.commute)
  finally show ?thesis by (simp add: comp_def add.commute)
qed

lemma sample_locations_eq:
  "sample_locations rnd locs ds k acc =
     (acc @ map (\<lambda>n. sample_row rnd (locs ! (n div length ds)) (ds ! (n mod length ds)) (k + 2 * n))
              [0..<length locs * length ds],
      k + 2 * (length locs * length ds))"
proof (induction locs arbitrary: k acc)
  case Nil
  then show ?case by simp
next
  case (Cons loc locs)
  define m where "m = length ds"
  define f where "f = (\<lambda>n. sample_row rnd ((loc # locs) ! (n div m)) (ds ! (n mod m)) (k + 2 * n))"
  have first: "map f [0..<m] = map (\<lambda>i. sample_row rnd loc (ds ! i) (k + 2 * i)) [0..<m]"
    by (rule map_cong) (simp_all add: f_def)
  have rest: "map (\<lambda>i. f (m + i)) [0..<length locs * m]
      = map (\<lambda>n. sample_row rnd (locs ! (n div m)) (ds ! (n mod m)) (k + 2 * m + 2 * n))
        [0..<length locs * m]"
  proof (cases "m = 0")
    case True
    then show ?thesis by simp
  next
    case False
    then have "(m + i) div m = Suc (i div m)" for i by simp
    then show ?thesis by (simp add: f_def distrib_left add.assoc)
  qed
  have "map f [0..<length (loc # locs) * m] = map f [0..<m + length locs * m]"
    by simp
  also have "\<dots> = map f [0..<m] @ map (\<lambda>i. f (m + i)) [0..<length locs * m]"
    by (rule upt_split_shift)
  finally have split: "map f [0..<length (loc # locs) * m]
      = map (\<lambda>i. sample_row rnd loc (ds ! i) (k + 2 * i)) [0..<m]
        @ map (\<lambda>n. sample_row rnd (locs ! (n div m)) (ds ! (n mod m)) (k + 2 * m + 2 * n))
        [0..<length locs * m]"
    by (simp only: first rest)
  have "sample_locations rnd (loc # locs) ds k acc =
      sample_locations rnd locs ds (k + 2 * m)
        (acc @ map (\<lambda>i. sample_row rnd loc (ds ! i) (k + 2 * i)) [0..<m])"
    by (simp add: sample_dates_eq m_def)
  also have "\<dots> = ((acc @ map (\<lambda>i. sample_row rnd loc (ds ! i) (k + 2 * i)) [0..<m])
        @ map (\<lambda>n. sample_row rnd (locs ! (n div m)) (ds ! (n mod m)) (k + 2 * m + 2 * n))
              [0..<length locs * m],
      k + 2 * m + 2 * (length locs * m))"
    unfolding m_def by (rule Cons.IH)
  also have "\<dots> = (acc @ map f [0..<length (loc # locs) * m], k + 2 * (length (loc # locs) * m))"
    by (simp only: split append_assoc) simp
  finally show ?case by (simp only: f_def m_def)
qed

lemma create_sample_data_eq:
  "create_sample_data now rnd =
     map (\<lambda>n. sample_row rnd (sample_places ! (n div 30)) (now - (29 - int (n mod 30)) * day_ns) (2 * n))
       [0..<90]"
proof -
  have len: "length (date_range_end now 30) = 30" by (simp add: date_range_end_def)
  have nth: "date_range_end now 30 ! i = now - (29 - int i) * day_ns" if "i < 30" for i
    using that by (simp add: date_range_end_def)
  have "create_sample_data now rnd =
     map (\<lambda>n. sample_row rnd (sample_places ! (n div 30)) (date_range_end now 30 ! (n mod 30)) (2 * n)) [0..<90]"
    by (simp add: create_sample_data_def sample_locations_eq len sample_places_def)
  also have "\<dots> = map (\<lambda>n. sample_row rnd (sample_places ! (n div 30)) (now - (29 - int (n mod 30)) * day_ns) (2 * n)) [0..<90]"
    by (rule map_cong) (simp_all add: nth)
  finally show ?thesis .
qed

lemma sensor_labels:
  assumes "1 \<le> i" and "i < 5"
  shows "''SENSOR_'' @ str_int i \<in> {''SENSOR_1'', ''SENSOR_2'', ''SENSOR_3'', ''SENSOR_4''}"
proof -
  from assms have "i = 1 \<or> i = 2 \<or> i = 3 \<or> i = 4" by arith
  then show ?thesis
    by (auto simp: str_int_def str_nat.simps digit_def)
qed

lemma sensor_labels_inj: "inj_on (\<lambda>i. ''SENSOR_'' @ str_int i) {1..<5}"
proof (rule inj_onI)
  fix x y :: int
  assume "x \<in> {1..<5}" "y \<in> {1..<5}" and eq: "''SENSOR_'' @ str_int x = ''SENSOR_'' @ str_int y"
  then have "x = 1 \<or> x = 2 \<or> x = 3 \<or> x = 4" "y = 1 \<or> y = 2 \<or> y = 3 \<or> y = 4" by auto
  with eq show "x = y"
    by (auto simp: str_int_def str_nat.simps digit_def)
qed

lemma counting_in_range: "in_range counting"
  unfolding in_range_def counting_def
proof (intro allI impI)
  fix k :: nat and lo hi :: int
  assume "lo < hi"
  then have "0 < hi - lo" by simp
  then have "0 \<le> int k mod (hi - lo) \<and> int k mod (hi - lo) < hi - lo"
    by simp
  then show "lo \<le> lo + int k mod (hi - lo) \<and> lo + int k mod (hi - lo) < hi" by arith
qed

text \<open>
  C4. Whenever the draws respect the contract of \<open>randint\<close>, \<open>create_sample_data\<close> returns
  exactly 90 rows. Row \<open>n\<close> belongs to location \<open>n div 30\<close> of the three fixed, distinct
  locations and to day \<open>n mod 30\<close> of the thirty consecutive days that end at the time of
  the call. Its index is the value of one \<open>randint(0, 200)\<close> draw, unchanged, so an
  integer in \<open>[0, 200)\<close>; its sensor id is the label of one \<open>randint(1, 5)\<close> draw, one of
  four labels, and distinct draws give distinct labels. No draw is used twice. The index
  and the label therefore have the distribution of the draws, which the library makes
  uniform.
\<close>

theorem create_sample_data_shape:
  assumes "in_range rnd"
  shows "length (create_sample_data now rnd) = 90
    \<and> length sample_places = 3 \<and> distinct sample_places
    \<and> (\<forall>n<90. location (create_sample_data now rnd ! n) = sample_places ! (n div 30)
          \<and> timestamp (create_sample_data now rnd ! n) = now - (29 - int (n mod 30)) * day_ns
          \<and> air_quality_index (create_sample_data now rnd ! n) = Some (of_int (rnd (2 * n) 0 200))
          \<and> 0 \<le> rnd (2 * n) 0 200 \<and> rnd (2 * n) 0 200 < 200
          \<and> sensor_id (create_sample_data now rnd ! n) = ''SENSOR_'' @ str_int (rnd (2 * n + 1) 1 5)
          \<and> sensor_id (create_sample_data now rnd ! n)
              \<in> {''SENSOR_1'', ''SENSOR_2'', ''SENSOR_3'', ''SENSOR_4''})
    \<and> inj_on (\<lambda>i. ''SENSOR_'' @ str_int i) {1..<5}"
proof -
  have r1: "0 \<le> rnd k 0 200 \<and> rnd k 0 200 < 200" for k
    using assms by (simp add: in_range_def)
  have r2: "1 \<le> rnd k 1 5 \<and> rnd k 1 5 < 5" for k
    using assms by (simp add: in_range_def)
  have row: "create_sample_data now rnd ! n =
      sample_row rnd (sample_places ! (n div 30)) (now - (29 - int (n mod 30)) * day_ns) (2 * n)"
    if "n < 90" for n
    using that by (simp add: create_sample_data_eq del: upt_Suc)
  have "length (create_sample_data now rnd) = 90"
    by (simp add: create_sample_data_eq del: upt_Suc)
  moreover have "length sample_places = 3 \<and> distinct sample_places"
    by (simp add: sample_places_def)
  moreover have "\<forall>n<90. location (create_sample_data now rnd ! n) = sample_places ! (n div 30)
          \<and> timestamp (create_sample_data now rnd ! n) = now - (29 - int (n mod 30)) * day_ns
          \<and> air_quality_index (create_sample_data now rnd ! n) = Some (of_int (rnd (2 * n) 0 200))
          \<and> 0 \<le> rnd (2 * n) 0 200 \<and> rnd (2 * n) 0 200 < 200
          \<and> sensor_id (create_sample_data now rnd ! n) = ''SENSOR_'' @ str_int (rnd (2 * n + 1) 1 5)
          \<and> sensor_id (create_sample_data now rnd ! n)
              \<in> {''SENSOR_1'', ''SENSOR_2'', ''SENSOR_3'', ''SENSOR_4''}"
    using r1 r2 sensor_labels by (simp add: row sample_row_def)
  ultimately show ?thesis using sensor_labels_inj by blast
qed

theorem create_sample_data_shape_witness:
  "in_range counting
   \<and> length (create_sample_data 0 counting) = 90
   \<and> create_sample_data 0 counting ! 31 =
       \<lparr>timestamp = - 28 * day_ns, location = ''Location B'', sensor_id = ''SENSOR_4'',
        air_quality_index = Some 62\<rparr>"
proof -
  have h: "in_range counting"
    by (rule counting_in_range)
  have "create_sample_data 0 counting ! 31 =
       \<lparr>timestamp = - 28 * day_ns, location = ''Location B'', sensor_id = ''SENSOR_4'',
        air_quality_index = Some 62\<rparr>"
    using create_sample_data_shape [OF h, of 0]
    by (simp add: sample_places_def str_int_def str_nat.simps digit_def counting_def)
  with h create_sample_data_shape [OF h, of 0] show ?thesis by simp
qed

section \<open>The sensor data loader: proofs\<close>

lemma demo_sensor_csv_rows:
  "process_sensor_data demo_pandas (Inr demo_sensor_csv) =
     Inr [\<lparr>timestamp = 0, location = ''A'', sensor_id = ''s1'', air_quality_index = Some 20\<rparr>]"
  by code_simp

text \<open>Steps that raise: a column that the file does not have, an index column that
  pandas read as numbers (so without the \<open>.str\<close> accessor), a timestamp that cannot be
  read.\<close>

lemma missing_column_raises:
  "process_sensor_data pd (Inr []) = Inl (KeyError ''sensor_id'')"
  by (simp add: process_sensor_data_def clean_def string_columns_def getitem_def)

lemma numeric_index_raises:
  "process_sensor_data demo_pandas
     (Inr (setitem demo_sensor_csv ''air_quality_index'' (NumCol [Some 10, Some 30, None])))
   = Inl AttributeError"
  by code_simp

lemma unreadable_timestamp_raises:
  "process_sensor_data demo_pandas
     (Inr (setitem demo_sensor_csv ''timestamp''
        (ObjectCol [Some ''2024-01-01'', Some ''yesterday'', Some ''2024-01-01''])))
   = Inl ValueError"
  by code_simp

text \<open>
  C1. Whatever the path and whatever the file system holds there: when a step of the loading
  raises (the file cannot be read, a column is missing or is not of strings, a timestamp
  cannot be read), \<open>load_and_process_sensor_data\<close> returns the output of
  \<open>create_sample_data\<close>; when no step raises it returns the aggregated data set; and in no
  case does it raise.
\<close>

theorem load_never_raises:
  "(\<forall>e. process_sensor_data pd (read_csv file_path) = Inl e \<longrightarrow>
        load_and_process_sensor_data pd read_csv now rnd file_path = Inr (create_sample_data now rnd))
   \<and> (\<forall>rs. process_sensor_data pd (read_csv file_path) = Inr rs \<longrightarrow>
        load_and_process_sensor_data pd read_csv now rnd file_path = Inr rs)
   \<and> (\<forall>e. load_and_process_sensor_data pd read_csv now rnd file_path \<noteq> Inl e)"
  by (auto simp: load_and_process_sensor_data_def try_except_def split: sum.splits)

theorem load_never_raises_witness:
  "process_sensor_data demo_pandas ((\<lambda>p. Inl FileNotFoundError) ''sensor_reading.csv'')
     = Inl FileNotFoundError
   \<and> load_and_process_sensor_data demo_pandas (\<lambda>p. Inl FileNotFoundError) 0 counting
        ''sensor_reading.csv'' = Inr (create_sample_data 0 counting)
   \<and> load_and_process_sensor_data demo_pandas (\<lambda>p. Inr demo_sensor_csv) 0 counting
        ''sensor_reading.csv''
      = Inr [\<lparr>timestamp = 0, location = ''A'', sensor_id = ''s1'', air_quality_index = Some 20\<rparr>]"
proof -
  have missing: "process_sensor_data demo_pandas ((\<lambda>p. Inl FileNotFoundError) ''sensor_reading.csv'')
      = Inl FileNotFoundError"
    by (simp add: process_sensor_data_def)
  show ?thesis
    using missing demo_sensor_csv_rows
      load_never_raises [of demo_pandas "\<lambda>p. Inl FileNotFoundError" "''sensor_reading.csv''" 0 counting]
      load_never_raises [of demo_pandas "\<lambda>p. Inr demo_sensor_csv" "''sensor_reading.csv''" 0 counting]
    by simp
qed

section \<open>The aggregation of the loader: proofs\<close>

lemma getitem_setitem:
  "getitem (setitem df c x) c' = (if c' = c then Inr x else getitem df c')"
  by (simp add: getitem_def setitem_def update_conv')



lemma mask_col_cases:
  "mask_col keep c = DatetimeCol xs \<Longrightarrow> \<exists>ys. c = DatetimeCol ys \<and> xs = select keep ys"
  "mask_col keep c = ObjectCol zs \<Longrightarrow> \<exists>ys. c = ObjectCol ys \<and> zs = select keep ys"
  "mask_col keep c = NumCol vs \<Longrightarrow> \<exists>ys. c = NumCol ys \<and> vs = select keep ys"
  by (cases c; simp add: mask_col_def)+













section \<open>The monitoring callback: proofs\<close>

lemma select_map_filter: "select (map P xs) xs = filter P xs"
  by (induction xs) (simp_all add: select_def)

lemma map2_conj: "map2 (\<and>) (map P xs) (map Q xs) = map (\<lambda>x. P x \<and> Q x) xs"
  by (induction xs) simp_all

lemma filter_locations_spec:
  assumes "a < length h" and "filter_locations h a sel = (a', h')"
  shows "a' < length h' \<and> a \<le> a' \<and> take (length h) h' = h
    \<and> rows (h' ! a') = filter (selected sel) (rows (h ! a))"
proof (cases "truthy sel")
  case False
  then have "filter_locations h a sel = (a, h)" and "\<forall>r. selected sel r"
    by (auto simp: filter_locations_def truthy_def selected_def split: option.splits)
  with assms show ?thesis by simp
next
  case True
  then obtain locs where sel: "sel = Some locs" "locs \<noteq> []"
    by (auto simp: truthy_def split: option.splits)
  then have "selected sel = (\<lambda>r. location r \<in> set locs)"
    by (auto simp: selected_def)
  with assms sel show ?thesis
    by (auto simp: filter_locations_def alloc_def frame_select_def select_map_filter nth_append)
qed

lemma filter_dates_spec:
  assumes "a < length h" and "date_bounds pd s e = Inr b"
  shows "\<exists>a' h'. filter_dates pd h a s e = (Inr a', h') \<and> a' < length h' \<and> a \<le> a'
    \<and> take (length h) h' = h \<and> rows (h' ! a') = filter (in_bounds b) (rows (h ! a))"
proof (cases b)
  case None
  with assms(2) have "filter_dates pd h a s e = (Inr a, h)"
    by (auto simp: date_bounds_def filter_dates_def split: option.splits if_splits)
  with None assms(1) show ?thesis by (simp add: in_bounds_def)
next
  case (Some p)
  obtain lo hi where p: "p = (lo, hi)" by (cases p)
  with Some assms(2) obtain s' e' where se: "s = Some s'" "e = Some e'" "s' \<noteq> []" "e' \<noteq> []"
      "parse_datetime pd s' = Some lo" "parse_datetime pd e' = Some hi"
    by (auto simp: date_bounds_def split: option.splits if_splits)
  have "in_bounds b = (\<lambda>r. lo \<le> timestamp r \<and> timestamp r \<le> hi)"
    by (rule ext) (simp add: in_bounds_def Some p)
  with se assms(1) show ?thesis
    by (simp add: filter_dates_def compare_column_def alloc_def frame_select_def map2_conj
        select_map_filter nth_append)
qed

lemma filter_dates_raises:
  assumes "date_bounds pd s e = Inl err"
  shows "filter_dates pd h a s e = (Inl err, h)"
  using assms
  by (auto simp: date_bounds_def filter_dates_def compare_column_def
      split: option.splits if_splits)

lemma filter_dates_heap:
  "take (length h) (snd (filter_dates pd h a s e)) = h"
  by (auto simp: filter_dates_def alloc_def split: option.splits sum.splits)

lemma filter_dates_address:
  assumes "a < length h" and "filter_dates pd h a s e = (Inr a', h')"
  shows "a' < length h' \<and> a \<le> a'"
  using assms
  by (auto simp: filter_dates_def alloc_def split: option.splits sum.splits if_splits)

lemma filter_step_spec:
  assumes "sensor_data < length h" and "date_bounds pd s e = Inr b"
  shows "\<exists>a' h'. filter_step pd sensor_data h sel s e = (Inr a', h')
    \<and> rows (h' ! a') = filter (\<lambda>r. selected sel r \<and> in_bounds b r) (rows (h ! sensor_data))"
proof -
  obtain a0 h0 where a0: "alloc h (h ! sensor_data) = (a0, h0)" by (cases "alloc h (h ! sensor_data)")
  then have h0: "a0 < length h0" "rows (h0 ! a0) = rows (h ! sensor_data)"
    by (auto simp: alloc_def)
  obtain a1 h1 where a1: "filter_locations h0 a0 sel = (a1, h1)"
    by (cases "filter_locations h0 a0 sel")
  from filter_locations_spec [OF h0(1) a1]
  have h1: "a1 < length h1" "rows (h1 ! a1) = filter (selected sel) (rows (h ! sensor_data))"
    by (simp_all add: h0(2))
  from filter_dates_spec [OF h1(1) assms(2)] obtain a' h' where
    "filter_dates pd h1 a1 s e = (Inr a', h')"
    "rows (h' ! a') = filter (in_bounds b) (rows (h1 ! a1))"
    by blast
  with assms(1) a0 a1 h1(2) show ?thesis
    by (simp add: filter_step_def conj_commute)
qed

lemma filter_step_raises:
  assumes "date_bounds pd s e = Inl err" and "sensor_data < length h"
  shows "fst (filter_step pd sensor_data h sel s e) = Inl err"
  using assms
  by (simp add: filter_step_def filter_dates_raises split: prod.splits)

lemma filter_step_heap:
  assumes "filter_step pd sensor_data h sel s e = (res, h2)"
  shows "take (length h) h2 = h \<and> (\<forall>a2. res = Inr a2 \<longrightarrow> length h \<le> a2 \<and> a2 < length h2)"
proof (cases "length h \<le> sensor_data")
  case True
  with assms show ?thesis by (auto simp: filter_step_def)
next
  case False
  obtain a0 h0 where a0: "alloc h (h ! sensor_data) = (a0, h0)" by (cases "alloc h (h ! sensor_data)")
  then have h0: "a0 < length h0" "a0 = length h" "take (length h) h0 = h" "length h \<le> length h0"
    by (auto simp: alloc_def)
  obtain a1 h1 where a1: "filter_locations h0 a0 sel = (a1, h1)"
    by (cases "filter_locations h0 a0 sel")
  from filter_locations_spec [OF h0(1) a1]
  have h1: "a1 < length h1" "a0 \<le> a1" "take (length h0) h1 = h0" by simp_all
  from False a0 a1 assms have fd: "filter_dates pd h1 a1 s e = (res, h2)"
    by (simp add: filter_step_def)
  with filter_dates_heap [of h1 pd a1 s e] have h2: "take (length h1) h2 = h1" by simp
  have "length h0 \<le> length h1"
    using h1(3) by (metis length_take min.cobounded1)
  have p1: "take (length h) h1 = h"
    using h0(3,4) h1(3) by (metis min.absorb1 take_take)
  have "length h \<le> length h1" using h0(4) \<open>length h0 \<le> length h1\<close> by simp
  then have p2: "take (length h) h2 = h"
    using p1 h2 by (metis min.absorb1 take_take)
  have "\<forall>a2. res = Inr a2 \<longrightarrow> length h \<le> a2 \<and> a2 < length h2"
    using filter_dates_address [OF h1(1), of pd s e _ h2] fd h0(2) h1(2) by auto
  with p2 show ?thesis by simp
qed


lemma update_figures_heap:
  "take (length h) (snd (update_figures pd sensor_data h sel s e)) = h"
proof -
  obtain res h2 where fs: "filter_step pd sensor_data h sel s e = (res, h2)"
    by (cases "filter_step pd sensor_data h sel s e")
  note fh = filter_step_heap [OF fs]
  show ?thesis
  proof (cases res)
    case (Inl err)
    with fs fh show ?thesis by (simp add: update_figures_def)
  next
    case (Inr a2)
    with fh have "length h \<le> a2" by simp
    then have "take (length h) (assign_date h2 a2) = h"
      using fh by (simp add: assign_date_def)
    with fs Inr show ?thesis
      by (simp add: update_figures_def Let_def split: sum.splits)
  qed
qed

lemma demo_bounds:
  "date_bounds demo_pandas (Some ''2024-01-01'') (Some ''2024-01-01'') = Inr (Some (0, 0))"
  by (simp add: date_bounds_def demo_pandas_def)

lemma demo_filter_step:
  "filter_step demo_pandas 0 demo_heap (Some [''A'']) (Some ''2024-01-01'') (Some ''2024-01-01'')
    = (Inr 3, demo_heap @
         [\<lparr>rows = demo_rows, date_col = None\<rparr>,
          \<lparr>rows = [demo_rows ! 0, demo_rows ! 2], date_col = None\<rparr>,
          \<lparr>rows = [demo_rows ! 0], date_col = None\<rparr>])"
  by code_simp

text \<open>
  C3. For a bound data set, any selection and any date bounds that are absent or read as
  timestamps, the filter step of \<open>update_figures\<close> yields exactly the rows of the data set
  whose location is among the selected ones (all rows when the selection is None or empty)
  and whose timestamp lies between the two bounds, both included (all rows when a bound is
  None or empty); with no selection the row count is that of the date filter alone. The
  rows are those the line figure is drawn from.
\<close>

theorem filter_step_rows:
  assumes "sensor_data < length h"
  shows "(\<forall>b. date_bounds pd s e = Inr b \<longrightarrow>
        (\<exists>a' h'. filter_step pd sensor_data h sel s e = (Inr a', h')
           \<and> rows (h' ! a') = filter (\<lambda>r. selected sel r \<and> in_bounds b r) (rows (h ! sensor_data))
           \<and> (\<not> truthy sel \<longrightarrow>
                length (rows (h' ! a')) = length (filter (in_bounds b) (rows (h ! sensor_data))))))
    \<and> (\<forall>out h3. update_figures pd sensor_data h sel s e = (Inr out, h3) \<longrightarrow>
        (\<exists>a' h'. filter_step pd sensor_data h sel s e = (Inr a', h')
           \<and> air_quality_fig out = rows (h' ! a')))"
proof -
  have one: "\<exists>a' h'. filter_step pd sensor_data h sel s e = (Inr a', h')
           \<and> rows (h' ! a') = filter (\<lambda>r. selected sel r \<and> in_bounds b r) (rows (h ! sensor_data))
           \<and> (\<not> truthy sel \<longrightarrow>
                length (rows (h' ! a')) = length (filter (in_bounds b) (rows (h ! sensor_data))))"
    if b: "date_bounds pd s e = Inr b" for b
  proof -
    from filter_step_spec [OF assms b, of sel] obtain a' h' where
      st: "filter_step pd sensor_data h sel s e = (Inr a', h')"
        "rows (h' ! a') = filter (\<lambda>r. selected sel r \<and> in_bounds b r) (rows (h ! sensor_data))"
      by blast
    have "\<not> truthy sel \<Longrightarrow> selected sel = (\<lambda>r. True)"
      by (rule ext) (auto simp: truthy_def selected_def split: option.splits)
    with st show ?thesis by auto
  qed
  have two: "\<exists>a' h'. filter_step pd sensor_data h sel s e = (Inr a', h')
           \<and> air_quality_fig out = rows (h' ! a')"
    if u: "update_figures pd sensor_data h sel s e = (Inr out, h3)" for out h3
  proof -
    obtain res h2 where fs: "filter_step pd sensor_data h sel s e = (res, h2)"
      by (cases "filter_step pd sensor_data h sel s e")
    with u obtain a2 where r: "res = Inr a2"
      by (cases res) (auto simp: update_figures_def)
    from u fs r have "air_quality_fig out = rows (h2 ! a2)"
      by (auto simp: update_figures_def Let_def split: sum.splits)
    with fs r show ?thesis by simp
  qed
  from one two show ?thesis by blast
qed

theorem filter_step_rows_witness:
  "0 < length demo_heap
   \<and> date_bounds demo_pandas (Some ''2024-01-01'') (Some ''2024-01-01'') = Inr (Some (0, 0))
   \<and> fst (filter_step demo_pandas 0 demo_heap (Some [''A'']) (Some ''2024-01-01'') (Some ''2024-01-01''))
       = Inr 3
   \<and> filter (\<lambda>r. selected (Some [''A'']) r \<and> in_bounds (Some (0, 0)) r) (rows (demo_heap ! 0))
       = [demo_rows ! 0]"
proof -
  have h: "0 < length demo_heap" by (simp add: demo_heap_def)
  from filter_step_rows [OF h, of demo_pandas "Some ''2024-01-01''" "Some ''2024-01-01''" "Some [''A'']"]
    demo_bounds
  obtain a' h' where
    st: "filter_step demo_pandas 0 demo_heap (Some [''A'']) (Some ''2024-01-01'') (Some ''2024-01-01'')
        = (Inr a', h')"
      "rows (h' ! a') =
         filter (\<lambda>r. selected (Some [''A'']) r \<and> in_bounds (Some (0, 0)) r) (rows (demo_heap ! 0))"
    by blast
  from st(1) [unfolded demo_filter_step]
  have "a' = 3" "h' ! 3 = \<lparr>rows = [demo_rows ! 0], date_col = None\<rparr>"
    by (auto simp: demo_heap_def)
  with st(2) have "filter (\<lambda>r. selected (Some [''A'']) r \<and> in_bounds (Some (0, 0)) r) (rows (demo_heap ! 0))
       = [demo_rows ! 0]"
    by simp
  with h demo_bounds demo_filter_step show ?thesis by simp
qed

text \<open>
  C9. \<open>update_figures\<close> changes no frame object that existed before the call: the heap after
  the call starts with the heap before it, so the object bound to \<open>sensor_data\<close> is the
  same before and after, whatever the selection and whether or not the call raises. The
  filtered rows and the added \<open>date\<close> column are in an object made during the call.
\<close>

theorem sensor_data_unchanged:
  "take (length h) (snd (update_figures pd sensor_data h sel s e)) = h
   \<and> (sensor_data < length h \<longrightarrow>
        snd (update_figures pd sensor_data h sel s e) ! sensor_data = h ! sensor_data)
   \<and> (\<forall>out h'. update_figures pd sensor_data h sel s e = (Inr out, h') \<longrightarrow>
         (\<exists>a. length h \<le> a \<and> a < length h' \<and> rows (h' ! a) = air_quality_fig out
            \<and> date_col (h' ! a) = Some (map (\<lambda>r. date_of (timestamp r)) (air_quality_fig out))))"
proof -
  have t: "take (length h) (snd (update_figures pd sensor_data h sel s e)) = h"
    by (rule update_figures_heap)
  have n: "snd (update_figures pd sensor_data h sel s e) ! sensor_data = h ! sensor_data"
    if "sensor_data < length h"
  proof -
    have "take (length h) (snd (update_figures pd sensor_data h sel s e)) ! sensor_data
        = snd (update_figures pd sensor_data h sel s e) ! sensor_data"
      using that by simp
    with t show ?thesis by simp
  qed
  have l: "\<exists>a. length h \<le> a \<and> a < length h' \<and> rows (h' ! a) = air_quality_fig out
            \<and> date_col (h' ! a) = Some (map (\<lambda>r. date_of (timestamp r)) (air_quality_fig out))"
    if u: "update_figures pd sensor_data h sel s e = (Inr out, h')" for out h'
  proof -
    obtain res h2 where fs: "filter_step pd sensor_data h sel s e = (res, h2)"
      by (cases "filter_step pd sensor_data h sel s e")
    with u obtain a2 where r: "res = Inr a2"
      by (cases res) (auto simp: update_figures_def)
    with filter_step_heap [OF fs] have a2: "length h \<le> a2" "a2 < length h2" by simp_all
    from u fs r have "h' = assign_date h2 a2" "air_quality_fig out = rows (h2 ! a2)"
      by (auto simp: update_figures_def Let_def split: sum.splits)
    with a2 show ?thesis
      by (auto simp: assign_date_def intro!: exI [of _ a2])
  qed
  from t n l show ?thesis by blast
qed

lemma demo_update_figures:
  "update_figures demo_pandas 0 demo_heap (Some []) None None =
     (Inr \<lparr>air_quality_fig = demo_rows,
           trends_fig = [\<lparr>place = ''A'', day = 0, average = Some 10\<rparr>,
                         \<lparr>place = ''A'', day = 1, average = Some (151 / 8)\<rparr>,
                         \<lparr>place = ''B'', day = 0, average = Some 30\<rparr>],
           stats = []\<rparr>,
      demo_heap @ [\<lparr>rows = demo_rows, date_col = Some [0, 0, 1]\<rparr>])"
  by code_simp

theorem sensor_data_unchanged_witness:
  "0 < length demo_heap
   \<and> snd (update_figures demo_pandas 0 demo_heap (Some []) None None)
       = demo_heap @ [\<lparr>rows = demo_rows, date_col = Some [0, 0, 1]\<rparr>]
   \<and> snd (update_figures demo_pandas 0 demo_heap (Some []) None None) ! 0 = demo_heap ! 0"
  using sensor_data_unchanged [of demo_heap demo_pandas 0 "Some []" None None] demo_update_figures
  by (simp add: demo_heap_def)











section \<open>The research data: proofs\<close>

lemma select_map: "select keep (map f xs) = map f (select keep xs)"
proof (induction xs arbitrary: keep)
  case Nil
  then show ?case by (simp add: select_def)
next
  case (Cons x xs)
  then show ?case by (cases keep) (simp_all add: select_def)
qed

lemma cells_mask_col: "cells (mask_col keep c) = select keep (cells c)"
  by (cases c) (simp_all add: cells_def mask_col_def select_map)

lemma select_notna: "select (notna c) (cells c) = filter (\<lambda>x. x \<noteq> None) (cells c)"
  by (simp add: notna_def select_map_filter)

lemma map_of_getitem_mask:
  "map_of (getitem_mask df keep) c = map_option (mask_col keep) (map_of df c)"
  unfolding getitem_mask_def by (induction df) auto

lemma select_conj_notna:
  "x \<in> set (select (map2 (\<and>) ps (map P xs)) xs) \<Longrightarrow> P x"
proof (induction xs arbitrary: ps)
  case Nil
  then show ?case by (simp add: select_def)
next
  case (Cons y ys)
  show ?case
  proof (cases ps)
    case Nil
    with Cons.prems show ?thesis by (simp add: select_def)
  next
    case (Cons q qs)
    with Cons.prems Cons.IH [of qs] show ?thesis
      by (auto simp: select_def split: if_splits)
  qed
qed

lemma length_to_numeric: "length (cells (to_numeric pd v)) = length (cells v)"
  by (cases v) (simp_all add: to_numeric_def cells_def)

lemma px_bar_Inr:
  assumes "px_bar df x y = Inr ch"
  shows "\<exists>xc yc. map_of df x = Some xc \<and> map_of df y = Some yc \<and> ch = BarChart (cells xc) (cells yc)"
  using assms by (auto simp: px_bar_def split: option.splits)

lemma px_scatter_Inr:
  assumes "px_scatter df x y sz = Inr ch"
  shows "\<exists>xc yc. map_of df x = Some xc \<and> map_of df y = Some yc
    \<and> ch = ScatterChart (cells xc) (cells yc) sz"
  using assms by (auto simp: px_scatter_def split: option.splits if_splits)

lemma getitem_Inr: "getitem df c = Inr x \<longleftrightarrow> map_of df c = Some x"
  by (simp add: getitem_def split: option.splits)

lemma health_page_charts:
  assumes "health_page_body (Some df) = Inr (HealthPage pm hr cards)"
  shows "\<exists>p v. getitem df ''parameter'' = Inr p \<and> getitem df ''value'' = Inr v
    \<and> chart_y pm = select (eq_str p ''PM2.5 Levels'') (cells v)
    \<and> chart_y hr = select (map2 (\<and>) (eq_str p ''Health Implications'') (notna v)) (cells v)
    \<and> None \<notin> set (chart_y hr)"
proof -
  from assms obtain p v where p: "getitem df ''parameter'' = Inr p" and v: "getitem df ''value'' = Inr v"
    and pm: "px_bar (getitem_mask df (eq_str p ''PM2.5 Levels'')) ''detail'' ''value'' = Inr pm"
    and hr: "px_scatter (getitem_mask df (map2 (\<and>) (eq_str p ''Health Implications'') (notna v)))
        ''detail'' ''value''
        (replicate (nrows (getitem_mask df (map2 (\<and>) (eq_str p ''Health Implications'') (notna v)))) 20)
      = Inr hr"
    by (auto simp: health_page_body_def Let_def split: sum.splits)
  from v have mv: "map_of df ''value'' = Some v" by (simp add: getitem_Inr)
  from px_bar_Inr [OF pm] mv have y1: "chart_y pm = select (eq_str p ''PM2.5 Levels'') (cells v)"
    by (auto simp: map_of_getitem_mask cells_mask_col)
  from px_scatter_Inr [OF hr] mv
  have y2: "chart_y hr = select (map2 (\<and>) (eq_str p ''Health Implications'') (notna v)) (cells v)"
    by (auto simp: map_of_getitem_mask cells_mask_col)
  have "None \<notin> set (chart_y hr)"
    unfolding y2 notna_def using select_conj_notna [of None _ "\<lambda>c. c \<noteq> None" "cells v"] by blast
  with p v y1 y2 show ?thesis by blast
qed

lemma research_body_charts:
  assumes "research_body pd read_csv g = Inr (hm, tv, kf)"
  shows "\<exists>df0 v0 p. read_csv ''health_correlations.csv'' = Inr df0
    \<and> getitem df0 ''value'' = Inr v0 \<and> getitem df0 ''parameter'' = Inr p
    \<and> chart_y hm = filter (\<lambda>c. c \<noteq> None) (cells (to_numeric pd v0))
    \<and> chart_y tv = filter (\<lambda>c. c \<noteq> None)
        (select (isin p [''PM2.5 Levels'', ''Health Implications'']) (cells (to_numeric pd v0)))
    \<and> create_health_correlations_page g = Inr kf"
proof -
  define keep where "keep p = isin p [''PM2.5 Levels'', ''Health Implications'']" for p
  from assms obtain df0 v0 p tvc where
    r: "read_csv ''health_correlations.csv'' = Inr df0" and v0: "getitem df0 ''value'' = Inr v0"
    and hm: "px_bar (getitem_mask (setitem df0 ''value'' (to_numeric pd v0)) (notna (to_numeric pd v0)))
        ''parameter'' ''value'' = Inr hm"
    and p: "getitem (setitem df0 ''value'' (to_numeric pd v0)) ''parameter'' = Inr p"
    and tvc: "getitem (getitem_mask (setitem df0 ''value'' (to_numeric pd v0)) (keep p)) ''value'' = Inr tvc"
    and tv: "px_scatter (getitem_mask (getitem_mask (setitem df0 ''value'' (to_numeric pd v0)) (keep p))
          (notna tvc)) ''parameter'' ''value''
        (replicate (nrows (getitem_mask (getitem_mask (setitem df0 ''value'' (to_numeric pd v0)) (keep p))
          (notna tvc))) 20) = Inr tv"
    and kf: "create_health_correlations_page g = Inr kf"
    unfolding research_body_def Let_def keep_def
    by (auto split: sum.splits)
  have mv: "map_of (setitem df0 ''value'' (to_numeric pd v0)) ''value'' = Some (to_numeric pd v0)"
    by (simp add: setitem_def update_conv')
  from p have p0: "getitem df0 ''parameter'' = Inr p" by (simp add: getitem_setitem)
  from px_bar_Inr [OF hm] mv
  have y1: "chart_y hm = filter (\<lambda>c. c \<noteq> None) (cells (to_numeric pd v0))"
    by (auto simp: map_of_getitem_mask cells_mask_col select_notna)
  from tvc mv have tvc': "tvc = mask_col (keep p) (to_numeric pd v0)"
    by (simp add: getitem_Inr map_of_getitem_mask)
  from px_scatter_Inr [OF tv] mv
  have "chart_y tv = cells (mask_col (notna tvc) tvc)"
    by (auto simp: map_of_getitem_mask tvc')
  also have "\<dots> = filter (\<lambda>c. c \<noteq> None) (cells tvc)"
    by (simp only: cells_mask_col select_notna)
  finally have y2: "chart_y tv = filter (\<lambda>c. c \<noteq> None) (select (keep p) (cells (to_numeric pd v0)))"
    by (simp only: tvc' cells_mask_col)
  from r v0 p0 y1 y2 kf show ?thesis unfolding keep_def by blast
qed

lemma load_research_findings_Inr:
  assumes "load_research_findings pd read_csv ff cf = Inr (f, c, n)"
  shows "\<exists>cdf v. read_csv ff = Inr f \<and> read_csv cf = Inr cdf
    \<and> groupby_count f ''category'' ''detail'' = Inr n
    \<and> getitem cdf ''value'' = Inr v \<and> c = setitem cdf ''value'' (to_numeric pd v)"
  using assms by (auto simp: load_research_findings_def split: sum.splits)

lemma set_present: "set (present xs) = {x. Some x \<in> set xs}"
  by (induction xs) (auto simp: present_def split: option.splits)

lemma count_pairs_inj:
  assumes "inj g"
  shows "length (filter (\<lambda>(k', b). k' = Some k \<and> b) (zip ks (map P ds)))
    = length (filter (\<lambda>(k', d). k' = Some (g k) \<and> P d) (zip (map (map_option g) ks) ds))"
proof (induction ks arbitrary: ds)
  case Nil
  then show ?case by simp
next
  case (Cons a ks)
  show ?case
  proof (cases ds)
    case Nil
    then show ?thesis by simp
  next
    case (Cons d ds')
    have "map_option g a = Some (g k) \<longleftrightarrow> a = Some k"
      using assms by (cases a) (auto dest: injD)
    with Cons Cons.IH [of ds'] show ?thesis by simp
  qed
qed

lemma count_groups_spec:
  fixes g :: "'a :: linorder \<Rightarrow> 'b" and ks :: "'a option list" and P :: "'c \<Rightarrow> bool" and ds :: "'c list"
  assumes "inj g"
  defines "out \<equiv> map (\<lambda>(k, n). (g k, n)) (count_groups ks (map P ds))"
  shows "distinct (map fst out)"
    and "set (map fst out) = {c. Some c \<in> set (map (map_option g) ks)}"
    and "\<forall>(c, m) \<in> set out.
           m = length (filter (\<lambda>(k', d). k' = Some c \<and> P d) (zip (map (map_option g) ks) ds))"
proof -
  have keys: "map fst out = map g (sort (remdups (present ks)))"
    by (simp add: out_def count_groups_def comp_def)
  have "inj_on g (set (sort (remdups (present ks))))"
    using assms(1) by (rule inj_on_subset) simp
  then show "distinct (map fst out)"
    unfolding keys by (simp add: distinct_map)
  have "set (map fst out) = g ` {x. Some x \<in> set ks}"
    unfolding keys by (simp add: set_present)
  also have "\<dots> = {c. Some c \<in> set (map (map_option g) ks)}"
  proof (rule set_eqI)
    fix c
    show "c \<in> g ` {x. Some x \<in> set ks} \<longleftrightarrow> c \<in> {c. Some c \<in> set (map (map_option g) ks)}"
    proof
      assume "c \<in> g ` {x. Some x \<in> set ks}"
      then obtain x where "c = g x" "Some x \<in> set ks" by blast
      then have "map_option g (Some x) \<in> map_option g ` set ks" by blast
      with \<open>c = g x\<close> show "c \<in> {c. Some c \<in> set (map (map_option g) ks)}" by simp
    next
      assume "c \<in> {c. Some c \<in> set (map (map_option g) ks)}"
      then have "Some c \<in> map_option g ` set ks" by simp
      then obtain a where "a \<in> set ks" "map_option g a = Some c" by (metis imageE)
      then obtain x where "a = Some x" "c = g x" by (cases a) auto
      with \<open>a \<in> set ks\<close> show "c \<in> g ` {x. Some x \<in> set ks}" by blast
    qed
  qed
  finally show "set (map fst out) = {c. Some c \<in> set (map (map_option g) ks)}" .
  show "\<forall>(c, m) \<in> set out.
           m = length (filter (\<lambda>(k', d). k' = Some c \<and> P d) (zip (map (map_option g) ks) ds))"
    using count_pairs_inj [OF assms(1), of _ ks P ds]
    by (auto simp: out_def count_groups_def)
qed

lemma groupby_count_spec:
  assumes "groupby_count df key counted = Inr n"
  shows "\<exists>kc dc. getitem df key = Inr kc \<and> getitem df counted = Inr dc
    \<and> distinct (map fst n)
    \<and> set (map fst n) = {c. Some c \<in> set (cells kc)}
    \<and> (\<forall>(c, m) \<in> set n.
          m = length (filter (\<lambda>(k, d). k = Some c \<and> d \<noteq> None) (zip (cells kc) (cells dc))))"
proof -
  from assms obtain kc dc where k: "getitem df key = Inr kc" and d: "getitem df counted = Inr dc"
    and n: "n = (case kc of
             ObjectCol ks \<Rightarrow> map (\<lambda>(k, n). (Str k, n)) (count_groups ks (notna dc))
           | NumCol ks \<Rightarrow> map (\<lambda>(k, n). (Num k, n)) (count_groups ks (notna dc))
           | DatetimeCol ks \<Rightarrow> map (\<lambda>(k, n). (Time k, n)) (count_groups ks (notna dc)))"
    by (auto simp: groupby_count_def split: sum.splits)
  have i: "inj Str" "inj Num" "inj Time" by (simp_all add: inj_def)
  have "distinct (map fst n)
    \<and> set (map fst n) = {c. Some c \<in> set (cells kc)}
    \<and> (\<forall>(c, m) \<in> set n.
          m = length (filter (\<lambda>(k, d). k = Some c \<and> d \<noteq> None) (zip (cells kc) (cells dc))))"
  proof (cases kc)
    case (ObjectCol ks)
    with n count_groups_spec [OF i(1), where ks = ks and P = "\<lambda>c. c \<noteq> None" and ds = "cells dc"] show ?thesis
      by (simp add: notna_def cells_def)
  next
    case (NumCol ks)
    with n count_groups_spec [OF i(2), where ks = ks and P = "\<lambda>c. c \<noteq> None" and ds = "cells dc"] show ?thesis
      by (simp add: notna_def cells_def)
  next
    case (DatetimeCol ks)
    with n count_groups_spec [OF i(3), where ks = ks and P = "\<lambda>c. c \<noteq> None" and ds = "cells dc"] show ?thesis
      by (simp add: notna_def cells_def)
  qed
  with k d show ?thesis by blast
qed

lemma demo_load:
  "load_research_findings demo_pandas demo_files ''research_findings.csv'' ''health_correlations.csv''
     = Inr (demo_findings, demo_correlations, [(Str ''Sources'', 1)])"
  by code_simp

text \<open>
  C8, as stated, fails: the summary counts the entries of \<open>detail\<close> that are not missing,
  not the rows. The findings file here has two rows of category Sources, one of them
  without a detail, and the summary gives Sources the count 1.
\<close>

theorem category_count_skips_missing_detail:
  "load_research_findings demo_pandas demo_files ''research_findings.csv'' ''health_correlations.csv''
     = Inr (demo_findings, demo_correlations, [(Str ''Sources'', 1)])
   \<and> getitem demo_findings ''category'' = Inr (ObjectCol [Some ''Sources'', Some ''Sources''])
   \<and> getitem demo_findings ''detail'' = Inr (ObjectCol [Some ''Traffic'', None])"
  using demo_load by (simp add: getitem_def demo_findings_def)

text \<open>
  C8, amended. The summary returned by \<open>load_research_findings\<close> has exactly one entry for
  each category that occurs in the \<open>category\<close> column (a missing category is no
  category), and the count of a category is the number of rows of the findings file with
  that category and a \<open>detail\<close> that is not missing.
\<close>

theorem category_counts:
  assumes "load_research_findings pd read_csv findings_file correlations_file = Inr (f, c, n)"
  shows "read_csv findings_file = Inr f
    \<and> (\<exists>kc dc. getitem f ''category'' = Inr kc \<and> getitem f ''detail'' = Inr dc
        \<and> distinct (map fst n)
        \<and> set (map fst n) = {k. Some k \<in> set (cells kc)}
        \<and> (\<forall>(k, m) \<in> set n.
              m = length (filter (\<lambda>(k', d). k' = Some k \<and> d \<noteq> None) (zip (cells kc) (cells dc)))))"
proof -
  from load_research_findings_Inr [OF assms]
  have "read_csv findings_file = Inr f" "groupby_count f ''category'' ''detail'' = Inr n"
    by auto
  with groupby_count_spec [of f "''category''" "''detail''" n] show ?thesis by simp
qed

theorem category_counts_witness:
  "load_research_findings demo_pandas demo_files ''research_findings.csv'' ''health_correlations.csv''
     = Inr (demo_findings, demo_correlations, [(Str ''Sources'', 1)])
   \<and> demo_files ''research_findings.csv'' = Inr demo_findings
   \<and> distinct (map fst [(Str ''Sources'', 1 :: nat)])"
  using category_counts [OF demo_load] demo_load by simp

text \<open>
  C6. \<open>load_research_findings\<close> catches nothing: when reading either file raises, or a
  column that it uses is missing, the call raises that exception, and no sample data takes
  the place of the files. \<open>update_research_findings\<close> never raises: when a step of its
  recomputation raises, it returns two empty figures and the text
  \<open>Error loading research findings\<close>, which hold no data; otherwise it returns what the
  recomputation produced.
\<close>

theorem research_error_policies:
  "(\<forall>e. read_csv findings_file = Inl e \<longrightarrow>
       load_research_findings pd read_csv findings_file correlations_file = Inl e)
   \<and> (\<forall>f e. read_csv findings_file = Inr f \<and> read_csv correlations_file = Inl e \<longrightarrow>
       load_research_findings pd read_csv findings_file correlations_file = Inl e)
   \<and> (\<forall>f c e. read_csv findings_file = Inr f \<and> read_csv correlations_file = Inr c
          \<and> groupby_count f ''category'' ''detail'' = Inl e \<longrightarrow>
       load_research_findings pd read_csv findings_file correlations_file = Inl e)
   \<and> (\<forall>f c n e. read_csv findings_file = Inr f \<and> read_csv correlations_file = Inr c
          \<and> groupby_count f ''category'' ''detail'' = Inr n \<and> getitem c ''value'' = Inl e \<longrightarrow>
       load_research_findings pd read_csv findings_file correlations_file = Inl e)
   \<and> (\<forall>e. research_body pd read_csv global_df = Inl e \<longrightarrow>
       update_research_findings pd read_csv global_df tab =
         Inr (EmptyFigure, EmptyFigure, TextDiv ''Error loading research findings''))
   \<and> (\<forall>out. research_body pd read_csv global_df = Inr out \<longrightarrow>
       update_research_findings pd read_csv global_df tab = Inr out)
   \<and> (\<forall>e. update_research_findings pd read_csv global_df tab \<noteq> Inl e)"
  by (auto simp: load_research_findings_def update_research_findings_def try_except_def
      split: sum.splits)

lemma demo_no_files:
  "research_body demo_pandas (\<lambda>p. Inl FileNotFoundError) None = Inl FileNotFoundError"
  by (simp add: research_body_def)

theorem research_error_policies_witness:
  "load_research_findings demo_pandas (\<lambda>p. Inl FileNotFoundError)
       ''research_findings.csv'' ''health_correlations.csv'' = Inl FileNotFoundError
   \<and> research_body demo_pandas (\<lambda>p. Inl FileNotFoundError) None = Inl FileNotFoundError
   \<and> update_research_findings demo_pandas (\<lambda>p. Inl FileNotFoundError) None None =
         Inr (EmptyFigure, EmptyFigure, TextDiv ''Error loading research findings'')"
  using research_error_policies [of "\<lambda>p. Inl FileNotFoundError" "''research_findings.csv''"
      demo_pandas "''health_correlations.csv''" None None] demo_no_files
  by simp

lemma demo_page:
  "create_health_correlations_page (Some demo_correlations) =
     Inr (HealthPage
       (BarChart [Some (Str ''annual mean''), Some (Str ''daily mean'')] [Some (Num 10), None])
       (ScatterChart [Some (Str ''asthma'')] [Some (Num 30)] [20])
       finding_cards)"
  by code_simp

text \<open>
  C7, as stated, fails for the PM2.5 bar chart of the health page: it is drawn from every
  row whose parameter is \<open>PM2.5 Levels\<close>. With the correlations frame that
  \<open>load_research_findings\<close> returns for the files here, the row \<open>daily mean\<close>, whose
  value is missing, is part of the chart's input.
\<close>

theorem pm25_chart_keeps_missing:
  "load_research_findings demo_pandas demo_files ''research_findings.csv'' ''health_correlations.csv''
     = Inr (demo_findings, demo_correlations, [(Str ''Sources'', 1)])
   \<and> create_health_correlations_page (Some demo_correlations) =
     Inr (HealthPage
       (BarChart [Some (Str ''annual mean''), Some (Str ''daily mean'')] [Some (Num 10), None])
       (ScatterChart [Some (Str ''asthma'')] [Some (Num 30)] [20])
       finding_cards)
   \<and> None \<in> set (chart_y (BarChart [Some (Str ''annual mean''), Some (Str ''daily mean'')]
        [Some (Num 10), None]))"
  using demo_load demo_page by simp

lemma create_page_body:
  "create_health_correlations_page g = Inr (HealthPage pm hr cards)
    \<Longrightarrow> health_page_body g = Inr (HealthPage pm hr cards)"
  by (auto simp: create_health_correlations_page_def try_except_def split: sum.splits)

lemma demo_update:
  "update_research_findings demo_pandas demo_files (Some demo_correlations) None =
     Inr (BarChart [Some (Str ''PM2.5 Levels''), Some (Str ''Health Implications'')]
            [Some (Num 10), Some (Num 30)],
          ScatterChart [Some (Str ''PM2.5 Levels''), Some (Str ''Health Implications'')]
            [Some (Num 10), Some (Num 30)] [20, 20],
          HealthPage
            (BarChart [Some (Str ''annual mean''), Some (Str ''daily mean'')] [Some (Num 10), None])
            (ScatterChart [Some (Str ''asthma'')] [Some (Num 30)] [20])
            finding_cards)"
  by code_simp

text \<open>
  C7, amended. The health-metrics bar chart is drawn from exactly the values of the re-read
  correlations file that are not missing, the overview scatter plot from those of the rows
  with parameter \<open>PM2.5 Levels\<close> or \<open>Health Implications\<close>, and the health-risk scatter
  plot of the health page from the rows with parameter \<open>Health Implications\<close> and a value
  that is not missing: no missing value reaches one of these three. The PM2.5 bar chart of
  the health page takes all rows with parameter \<open>PM2.5 Levels\<close>. The correlations frame
  that \<open>load_research_findings\<close> returns has as many rows as the file, with the other
  columns unchanged.
\<close>

theorem missing_values_in_charts:
  "(\<forall>hm tv kf. update_research_findings pd read_csv g tab = Inr (hm, tv, kf) \<longrightarrow>
       None \<notin> set (chart_y hm) \<and> None \<notin> set (chart_y tv))
   \<and> (\<forall>hm tv kf. research_body pd read_csv g = Inr (hm, tv, kf) \<longrightarrow>
       (\<exists>df0 v0 p. read_csv ''health_correlations.csv'' = Inr df0
          \<and> getitem df0 ''value'' = Inr v0 \<and> getitem df0 ''parameter'' = Inr p
          \<and> chart_y hm = filter (\<lambda>c. c \<noteq> None) (cells (to_numeric pd v0))
          \<and> chart_y tv = filter (\<lambda>c. c \<noteq> None)
              (select (isin p [''PM2.5 Levels'', ''Health Implications'']) (cells (to_numeric pd v0)))))
   \<and> (\<forall>pm hr cards. create_health_correlations_page (Some df) = Inr (HealthPage pm hr cards) \<longrightarrow>
       None \<notin> set (chart_y hr)
       \<and> (\<exists>p v. getitem df ''parameter'' = Inr p \<and> getitem df ''value'' = Inr v
            \<and> chart_y pm = select (eq_str p ''PM2.5 Levels'') (cells v)
            \<and> chart_y hr = select (map2 (\<and>) (eq_str p ''Health Implications'') (notna v)) (cells v)))
   \<and> (\<forall>f c n. load_research_findings pd read_csv findings_file correlations_file = Inr (f, c, n) \<longrightarrow>
       (\<exists>cdf v. read_csv correlations_file = Inr cdf \<and> getitem cdf ''value'' = Inr v
          \<and> getitem c ''value'' = Inr (to_numeric pd v)
          \<and> length (cells (to_numeric pd v)) = length (cells v)
          \<and> (\<forall>col. col \<noteq> ''value'' \<longrightarrow> getitem c col = getitem cdf col)))"
proof -
  have body: "\<exists>df0 v0 p. read_csv ''health_correlations.csv'' = Inr df0
          \<and> getitem df0 ''value'' = Inr v0 \<and> getitem df0 ''parameter'' = Inr p
          \<and> chart_y hm = filter (\<lambda>c. c \<noteq> None) (cells (to_numeric pd v0))
          \<and> chart_y tv = filter (\<lambda>c. c \<noteq> None)
              (select (isin p [''PM2.5 Levels'', ''Health Implications'']) (cells (to_numeric pd v0)))"
    if "research_body pd read_csv g = Inr (hm, tv, kf)" for hm tv kf
    using research_body_charts [OF that] by blast
  have upd: "None \<notin> set (chart_y hm) \<and> None \<notin> set (chart_y tv)"
    if u: "update_research_findings pd read_csv g tab = Inr (hm, tv, kf)" for hm tv kf
  proof (cases "research_body pd read_csv g")
    case (Inl e)
    with u show ?thesis
      by (auto simp: update_research_findings_def try_except_def)
  next
    case (Inr out)
    with u have "research_body pd read_csv g = Inr (hm, tv, kf)"
      by (simp add: update_research_findings_def try_except_def)
    from body [OF this] show ?thesis by auto
  qed
  have page: "None \<notin> set (chart_y hr)
       \<and> (\<exists>p v. getitem df ''parameter'' = Inr p \<and> getitem df ''value'' = Inr v
            \<and> chart_y pm = select (eq_str p ''PM2.5 Levels'') (cells v)
            \<and> chart_y hr = select (map2 (\<and>) (eq_str p ''Health Implications'') (notna v)) (cells v))"
    if "create_health_correlations_page (Some df) = Inr (HealthPage pm hr cards)" for pm hr cards
    using health_page_charts [OF create_page_body [OF that]] by blast
  have load: "\<exists>cdf v. read_csv correlations_file = Inr cdf \<and> getitem cdf ''value'' = Inr v
          \<and> getitem c ''value'' = Inr (to_numeric pd v)
          \<and> length (cells (to_numeric pd v)) = length (cells v)
          \<and> (\<forall>col. col \<noteq> ''value'' \<longrightarrow> getitem c col = getitem cdf col)"
    if "load_research_findings pd read_csv findings_file correlations_file = Inr (f, c, n)" for f c n
  proof -
    from load_research_findings_Inr [OF that] obtain cdf v where
      "read_csv correlations_file = Inr cdf" "getitem cdf ''value'' = Inr v"
      "c = setitem cdf ''value'' (to_numeric pd v)"
      by blast
    then show ?thesis
      by (auto simp: getitem_setitem length_to_numeric)
  qed
  from upd body page load show ?thesis by blast
qed

theorem missing_values_in_charts_witness:
  "update_research_findings demo_pandas demo_files (Some demo_correlations) None =
     Inr (BarChart [Some (Str ''PM2.5 Levels''), Some (Str ''Health Implications'')]
            [Some (Num 10), Some (Num 30)],
          ScatterChart [Some (Str ''PM2.5 Levels''), Some (Str ''Health Implications'')]
            [Some (Num 10), Some (Num 30)] [20, 20],
          HealthPage
            (BarChart [Some (Str ''annual mean''), Some (Str ''daily mean'')] [Some (Num 10), None])
            (ScatterChart [Some (Str ''asthma'')] [Some (Num 30)] [20])
            finding_cards)
   \<and> None \<notin> set (chart_y (BarChart [Some (Str ''PM2.5 Levels''), Some (Str ''Health Implications'')]
            [Some (Num 10), Some (Num 30)]))
   \<and> getitem demo_correlations ''value'' = Inr (NumCol [Some 10, None, Some 30, None])"
  using missing_values_in_charts [of demo_pandas demo_files "Some demo_correlations" None
      demo_correlations "''research_findings.csv''" "''health_correlations.csv''"]
    demo_update
  by (simp add: getitem_def demo_correlations_def)

lemma create_page_total: "\<exists>page. create_health_correlations_page g = Inr page"
  by (auto simp: create_health_correlations_page_def try_except_def split: sum.splits)

lemma create_page_unbound:
  "create_health_correlations_page None = Inr (TextDiv ''Error loading health correlations page'')"
  by (simp add: create_health_correlations_page_def try_except_def health_page_body_def)

lemma demo_body_later:
  "research_body demo_pandas demo_files_later (Some demo_correlations) =
     Inr (BarChart [Some (Str ''PM2.5 Levels'')] [Some (Num 30)],
          ScatterChart [Some (Str ''PM2.5 Levels'')] [Some (Num 30)] [20],
          HealthPage
            (BarChart [Some (Str ''annual mean''), Some (Str ''daily mean'')] [Some (Num 10), None])
            (ScatterChart [Some (Str ''asthma'')] [Some (Num 30)] [20])
            finding_cards)"
  by code_simp

lemma demo_body_unbound:
  "research_body demo_pandas demo_files_later None =
     Inr (BarChart [Some (Str ''PM2.5 Levels'')] [Some (Num 30)],
          ScatterChart [Some (Str ''PM2.5 Levels'')] [Some (Num 30)] [20],
          TextDiv ''Error loading health correlations page'')"
  by code_simp

text \<open>
  C10. In \<open>update_research_findings\<close> the key findings are the result of
  \<open>create_health_correlations_page\<close> on the global \<open>correlations_df\<close>: whenever the
  recomputation goes through, they are the same for every content of the re-read file, so
  the figures of the health page can show other values than the two figures built from
  the file (the example below: 10 against 30). When the recomputation raises, the key
  findings are the fixed error text. \<open>create_health_correlations_page\<close> never raises; with
  the global unbound it returns the \<open>Div\<close> with the text
  \<open>Error loading health correlations page\<close>, which is then what the callback returns as
  key findings.
\<close>

theorem key_findings_from_global:
  "(\<forall>hm tv kf. research_body pd read_csv g = Inr (hm, tv, kf) \<longrightarrow>
       create_health_correlations_page g = Inr kf
       \<and> update_research_findings pd read_csv g tab = Inr (hm, tv, kf))
   \<and> (\<forall>hm tv kf hm' tv' kf'. research_body pd read_csv g = Inr (hm, tv, kf)
         \<and> research_body pd read_csv' g = Inr (hm', tv', kf') \<longrightarrow> kf' = kf)
   \<and> (\<forall>e. research_body pd read_csv g = Inl e \<longrightarrow>
       update_research_findings pd read_csv g tab =
         Inr (EmptyFigure, EmptyFigure, TextDiv ''Error loading research findings''))
   \<and> create_health_correlations_page None = Inr (TextDiv ''Error loading health correlations page'')
   \<and> (\<exists>page. create_health_correlations_page g = Inr page)
   \<and> (\<forall>hm tv kf. research_body pd read_csv None = Inr (hm, tv, kf) \<longrightarrow>
       kf = TextDiv ''Error loading health correlations page'')"
proof -
  have key: "create_health_correlations_page g' = Inr kf"
    if "research_body pd rd g' = Inr (hm, tv, kf)" for rd g' hm tv kf
    using research_body_charts [OF that] by blast
  have one: "create_health_correlations_page g = Inr kf
       \<and> update_research_findings pd read_csv g tab = Inr (hm, tv, kf)"
    if "research_body pd read_csv g = Inr (hm, tv, kf)" for hm tv kf
    using key [OF that] that by (simp add: update_research_findings_def try_except_def)
  have two: "kf' = kf"
    if "research_body pd read_csv g = Inr (hm, tv, kf) \<and> research_body pd read_csv' g = Inr (hm', tv', kf')"
    for hm tv kf hm' tv' kf'
    using that key [of read_csv g hm tv kf] key [of read_csv' g hm' tv' kf'] by simp
  have three: "update_research_findings pd read_csv g tab =
         Inr (EmptyFigure, EmptyFigure, TextDiv ''Error loading research findings'')"
    if "research_body pd read_csv g = Inl e" for e
    using that by (simp add: update_research_findings_def try_except_def)
  have four: "kf = TextDiv ''Error loading health correlations page''"
    if "research_body pd read_csv None = Inr (hm, tv, kf)" for hm tv kf
    using key [OF that] create_page_unbound by simp
  from one two three four create_page_unbound create_page_total [of g] show ?thesis
    by blast
qed

theorem key_findings_from_global_witness:
  "update_research_findings demo_pandas demo_files_later (Some demo_correlations) None =
     Inr (BarChart [Some (Str ''PM2.5 Levels'')] [Some (Num 30)],
          ScatterChart [Some (Str ''PM2.5 Levels'')] [Some (Num 30)] [20],
          HealthPage
            (BarChart [Some (Str ''annual mean''), Some (Str ''daily mean'')] [Some (Num 10), None])
            (ScatterChart [Some (Str ''asthma'')] [Some (Num 30)] [20])
            finding_cards)
   \<and> create_health_correlations_page (Some demo_correlations) =
     Inr (HealthPage
            (BarChart [Some (Str ''annual mean''), Some (Str ''daily mean'')] [Some (Num 10), None])
            (ScatterChart [Some (Str ''asthma'')] [Some (Num 30)] [20])
            finding_cards)
   \<and> update_research_findings demo_pandas demo_files_later None None =
     Inr (BarChart [Some (Str ''PM2.5 Levels'')] [Some (Num 30)],
          ScatterChart [Some (Str ''PM2.5 Levels'')] [Some (Num 30)] [20],
          TextDiv ''Error loading health correlations page'')"
proof -
  from key_findings_from_global [of demo_pandas demo_files_later "Some demo_correlations" None]
    demo_body_later
  have a: "create_health_correlations_page (Some demo_correlations) =
     Inr (HealthPage
            (BarChart [Some (Str ''annual mean''), Some (Str ''daily mean'')] [Some (Num 10), None])
            (ScatterChart [Some (Str ''asthma'')] [Some (Num 30)] [20])
            finding_cards)
    \<and> update_research_findings demo_pandas demo_files_later (Some demo_correlations) None =
     Inr (BarChart [Some (Str ''PM2.5 Levels'')] [Some (Num 30)],
          ScatterChart [Some (Str ''PM2.5 Levels'')] [Some (Num 30)] [20],
          HealthPage
            (BarChart [Some (Str ''annual mean''), Some (Str ''daily mean'')] [Some (Num 10), None])
            (ScatterChart [Some (Str ''asthma'')] [Some (Num 30)] [20])
            finding_cards)"
    by blast
  from key_findings_from_global [of demo_pandas demo_files_later None None] demo_body_unbound
  have b: "update_research_findings demo_pandas demo_files_later None None =
     Inr (BarChart [Some (Str ''PM2.5 Levels'')] [Some (Num 30)],
          ScatterChart [Some (Str ''PM2.5 Levels'')] [Some (Num 30)] [20],
          TextDiv ''Error loading health correlations page'')"
    by blast
  from a b show ?thesis by blast
qed

end
